theory Spec2Isabelle
  imports Complex_Main "HOL-Library.Sublist"
begin

section \<open>The poem server: values of the host language\<close>

text \<open>
  The program is JavaScript. A number is a double: here a rational, one of the two
  infinities, or NaN. Every comparison with NaN is false, as in the language.
\<close>

datatype jsnum = NaN | Fin rat | PosInf | NegInf

fun num_ge :: "jsnum \<Rightarrow> rat \<Rightarrow> bool" where
  "num_ge NaN k = False"
| "num_ge (Fin q) k = (k \<le> q)"
| "num_ge PosInf k = True"
| "num_ge NegInf k = False"

fun num_le :: "jsnum \<Rightarrow> rat \<Rightarrow> bool" where
  "num_le NaN k = False"
| "num_le (Fin q) k = (q \<le> k)"
| "num_le PosInf k = False"
| "num_le NegInf k = True"

fun num_lt :: "jsnum \<Rightarrow> rat \<Rightarrow> bool" where
  "num_lt NaN k = False"
| "num_lt (Fin q) k = (q < k)"
| "num_lt PosInf k = False"
| "num_lt NegInf k = True"

fun isNaN :: "jsnum \<Rightarrow> bool" where
  "isNaN NaN = True"
| "isNaN _ = False"

text \<open>
  A field of a request body or of a query string. An array or an object is kept as the
  string that the language's string conversion gives it (\<open>JObj\<close>): the server only
  tests such a value for truthiness, converts it to a number, matches it against a
  pattern or interpolates it.
\<close>

datatype jsval =
    JUndefined
  | JNull
  | JBool bool
  | JNum jsnum
  | JStr string
  | JObj string

text \<open>\<open>truthy v\<close> is what \<open>!v\<close> negates.\<close>

fun truthy :: "jsval \<Rightarrow> bool" where
  "truthy JUndefined = False"
| "truthy JNull = False"
| "truthy (JBool b) = b"
| "truthy (JNum NaN) = False"
| "truthy (JNum (Fin q)) = (q \<noteq> 0)"
| "truthy (JNum PosInf) = True"
| "truthy (JNum NegInf) = True"
| "truthy (JStr s) = (s \<noteq> [])"
| "truthy (JObj s) = True"

text \<open>
  \<open>parseFloat(v)\<close> converts \<open>v\<close> to a string and reads the longest numeric
  prefix. The reading of a string is the host's (\<open>pf\<close>). A number survives the trip
  through its own string; the strings of booleans, \<open>null\<close> and \<open>undefined\<close> have
  no numeric prefix.
\<close>

fun parseFloat :: "(string \<Rightarrow> jsnum) \<Rightarrow> jsval \<Rightarrow> jsnum" where
  "parseFloat pf (JNum n) = n"
| "parseFloat pf (JStr s) = pf s"
| "parseFloat pf (JObj s) = pf s"
| "parseFloat pf (JBool b) = NaN"
| "parseFloat pf JNull = NaN"
| "parseFloat pf JUndefined = NaN"

section \<open>Strings\<close>

definition is_digit :: "char \<Rightarrow> bool" where
  "is_digit c = (c \<in> set ''0123456789'')"

text \<open>\<open>s.split(c)\<close>: the pieces between the occurrences of \<open>c\<close>, at least one.\<close>

fun split_on :: "char \<Rightarrow> string \<Rightarrow> string list" where
  "split_on c [] = [[]]"
| "split_on c (x # xs) =
     (if x = c then [] # split_on c xs
      else (case split_on c xs of
              [] \<Rightarrow> [[x]]
            | p # ps \<Rightarrow> (x # p) # ps))"

text \<open>
  A string is the sequence of the bytes of its UTF-8 encoding. The white space and the
  line terminators of the language are six characters of one byte, U+00A0 of two, and
  U+1680, U+2000 to U+200A, U+2028, U+2029, U+202F, U+205F, U+3000 and U+FEFF of
  three. \<open>strip\<close> removes them at the front of a string, given the tests for two and
  for three bytes; at the end of a string the bytes come in the opposite order.
  \<open>s.trim()\<close> removes them at both ends.
\<close>

definition is_space :: "char \<Rightarrow> bool" where
  "is_space c = (c \<in> {CHR 0x09, CHR 0x0A, CHR 0x0B, CHR 0x0C, CHR 0x0D, CHR '' ''})"

definition is_space2 :: "char \<Rightarrow> char \<Rightarrow> bool" where
  "is_space2 a b = (a = CHR 0xC2 \<and> b = CHR 0xA0)"

definition is_space3 :: "char \<Rightarrow> char \<Rightarrow> char \<Rightarrow> bool" where
  "is_space3 a b c =
     (a = CHR 0xE1 \<and> b = CHR 0x9A \<and> c = CHR 0x80 \<or>
      a = CHR 0xE2 \<and> b = CHR 0x80 \<and>
        c \<in> {CHR 0x80, CHR 0x81, CHR 0x82, CHR 0x83, CHR 0x84, CHR 0x85, CHR 0x86, CHR 0x87,
             CHR 0x88, CHR 0x89, CHR 0x8A, CHR 0xA8, CHR 0xA9, CHR 0xAF} \<or>
      a = CHR 0xE2 \<and> b = CHR 0x81 \<and> c = CHR 0x9F \<or>
      a = CHR 0xE3 \<and> b = CHR 0x80 \<and> c = CHR 0x80 \<or>
      a = CHR 0xEF \<and> b = CHR 0xBB \<and> c = CHR 0xBF)"

fun strip :: "(char \<Rightarrow> char \<Rightarrow> bool) \<Rightarrow> (char \<Rightarrow> char \<Rightarrow> char \<Rightarrow> bool) \<Rightarrow> string \<Rightarrow> string" where
  "strip two three [] = []"
| "strip two three [a] = (if is_space a then [] else [a])"
| "strip two three [a, b] =
     (if is_space a then strip two three [b]
      else if two a b then []
      else [a, b])"
| "strip two three (a # b # c # cs) =
     (if is_space a then strip two three (b # c # cs)
      else if two a b then strip two three (c # cs)
      else if three a b c then strip two three cs
      else a # b # c # cs)"

definition trimStart :: "string \<Rightarrow> string" where
  "trimStart s = strip is_space2 is_space3 s"

definition trimEnd :: "string \<Rightarrow> string" where
  "trimEnd s = rev (strip (\<lambda>a b. is_space2 b a) (\<lambda>a b c. is_space3 c b a) (rev s))"

definition trim :: "string \<Rightarrow> string" where
  "trim s = trimEnd (trimStart s)"

text \<open>\<open>String(n).padStart(2, '0')\<close> for a natural number.\<close>

fun dec :: "nat \<Rightarrow> string" where
  "dec n = (if n < 10 then [''0123456789'' ! n]
            else dec (n div 10) @ [''0123456789'' ! (n mod 10)])"

definition pad2 :: "nat \<Rightarrow> string" where
  "pad2 n = (if length (dec n) < 2 then replicate (2 - length (dec n)) CHR ''0'' @ dec n
             else dec n)"

section \<open>Request validation (server.js)\<close>

text \<open>
  \<^verbatim>\<open>
  function validateCoordinates(lat, lon) {
    const latitude = parseFloat(lat);
    const longitude = parseFloat(lon);
    return !isNaN(latitude) && !isNaN(longitude) &&
           latitude >= -90 && latitude <= 90 &&
           longitude >= -180 && longitude <= 180;
  }
  \<close>
\<close>

definition validateCoordinates :: "(string \<Rightarrow> jsnum) \<Rightarrow> jsval \<Rightarrow> jsval \<Rightarrow> bool" where
  "validateCoordinates pf lat lon =
     (let latitude = parseFloat pf lat;
          longitude = parseFloat pf lon
      in \<not> isNaN latitude \<and> \<not> isNaN longitude \<and>
         num_ge latitude (- 90) \<and> num_le latitude 90 \<and>
         num_ge longitude (- 180) \<and> num_le longitude 180)"

text \<open>The pattern \<^verbatim>\<open>/^([01]\d|2[0-3]):([0-5]\d)$/\<close> on a string.\<close>

fun time_pattern :: "string \<Rightarrow> bool" where
  "time_pattern [a, b, c, d, e] =
     (((a \<in> set ''01'' \<and> is_digit b) \<or> (a = CHR ''2'' \<and> b \<in> set ''0123'')) \<and>
      c = CHR '':'' \<and> d \<in> set ''012345'' \<and> is_digit e)"
| "time_pattern _ = False"

text \<open>The pattern \<^verbatim>\<open>/^\d{4}-\d{2}-\d{2}$/\<close> on a string.\<close>

fun date_pattern :: "string \<Rightarrow> bool" where
  "date_pattern [y1, y2, y3, y4, h1, m1, m2, h2, d1, d2] =
     (is_digit y1 \<and> is_digit y2 \<and> is_digit y3 \<and> is_digit y4 \<and> h1 = CHR ''-'' \<and>
      is_digit m1 \<and> is_digit m2 \<and> h2 = CHR ''-'' \<and> is_digit d1 \<and> is_digit d2)"
| "date_pattern _ = False"

text \<open>
  \<open>pattern.test(v)\<close> matches the string of \<open>v\<close>. The string of a number, of a
  boolean, of \<open>null\<close> or of \<open>undefined\<close> has neither the colon of a time at its third
  place nor the two hyphens of a date between digits, so only a string, or an array or
  object whose string has the shape, can match.
\<close>

fun validateTime :: "jsval \<Rightarrow> bool" where
  "validateTime (JStr s) = time_pattern s"
| "validateTime (JObj s) = time_pattern s"
| "validateTime _ = False"

fun validateDate :: "jsval \<Rightarrow> bool" where
  "validateDate (JStr s) = date_pattern s"
| "validateDate (JObj s) = date_pattern s"
| "validateDate _ = False"

text \<open>The string that a template literal gives a value which passed one of the patterns.\<close>

fun interpolate :: "jsval \<Rightarrow> string" where
  "interpolate (JStr s) = s"
| "interpolate (JObj s) = s"
| "interpolate _ = []"

text \<open>What a handler sends back: a status and a JSON or text payload.\<close>

datatype error =
    FetchFailed
  | BodyUnreadable
  | HttpStatus nat
  | ParseFailed
  | UnexpectedFormat
  | NotAFunction

datatype payload =
    Poem string
  | LocationName string
  | Failure string "error option"
  | Text string

datatype reply = Reply nat payload

record body =
  latitude :: jsval
  longitude :: jsval
  time :: jsval
  date :: jsval

text \<open>The server's clock at the request: \<open>new Date()\<close>, read three ways.\<close>

record clock =
  getHours :: nat
  getMinutes :: nat
  isoDate :: string

text \<open>
  \<^verbatim>\<open>
  function validatePoemRequest(req, res, next) {
    const { latitude, longitude, time, date } = req.body;
    if (!latitude || !longitude || !validateCoordinates(latitude, longitude)) {
      return res.status(400).json({ error: 'Valid latitude and longitude are required' });
    }
    const now = new Date();
    if (!time || !validateTime(time)) {
      req.body.time = `${String(now.getHours()).padStart(2, '0')}:${...getMinutes()...}`;
    }
    if (!date || !validateDate(date)) {
      req.body.date = now.toISOString().slice(0, 10);
    }
    next();
  }
  \<close>
  \<open>Inl\<close> is the reply sent without calling \<open>next\<close>; \<open>Inr\<close> is the body handed on.
\<close>

definition validatePoemRequest :: "(string \<Rightarrow> jsnum) \<Rightarrow> clock \<Rightarrow> body \<Rightarrow> reply + body" where
  "validatePoemRequest pf now b =
     (if \<not> truthy (latitude b) \<or> \<not> truthy (longitude b) \<or>
         \<not> validateCoordinates pf (latitude b) (longitude b)
      then Inl (Reply 400 (Failure ''Valid latitude and longitude are required'' None))
      else
        let b1 = (if \<not> truthy (time b) \<or> \<not> validateTime (time b)
                  then b\<lparr>time := JStr (pad2 (getHours now) @ '':'' @ pad2 (getMinutes now))\<rparr>
                  else b);
            b2 = (if \<not> truthy (date b1) \<or> \<not> validateDate (date b1)
                  then b1\<lparr>date := JStr (isoDate now)\<rparr>
                  else b1)
        in Inr b2)"

section \<open>Context and fallback text (services/ollama-service.js)\<close>

record contextInfo =
  timeOfDay :: string
  season :: string
  datetime :: string

text \<open>Destructuring \<open>[a, b, c] = xs\<close>: a missing element is \<open>undefined\<close>, NaN as a number.\<close>

definition element :: "jsnum list \<Rightarrow> nat \<Rightarrow> jsnum" where
  "element xs i = (if i < length xs then xs ! i else NaN)"

fun minus1 :: "jsnum \<Rightarrow> jsnum" where
  "minus1 (Fin q) = Fin (q - 1)"
| "minus1 n = n"

text \<open>
  \<^verbatim>\<open>
  function getContextInfo(timeStr, dateStr) {
    try {
      const [hour, minute] = timeStr.split(':').map(Number);
      const [year, month, day] = dateStr.split('-').map(Number);
      let timeOfDay;
      if (hour >= 5 && hour < 12) { timeOfDay = 'morning'; }
      else if (hour >= 12 && hour < 17) { timeOfDay = 'afternoon'; }
      else if (hour >= 17 && hour < 21) { timeOfDay = 'evening'; }
      else { timeOfDay = 'night'; }
      let season;
      if (month >= 3 && month <= 5) { season = 'spring'; }
      else if (month >= 6 && month <= 8) { season = 'summer'; }
      else if (month >= 9 && month <= 11) { season = 'autumn'; }
      else { season = 'winter'; }
      return { timeOfDay, season,
               datetime: new Date(year, month - 1, day, hour, minute).toISOString() };
    } catch (error) { return null; }
  }
  \<close>
  Two things are the host's: \<open>Number\<close> on a string (\<open>num\<close>), and the ISO string of
  the date built from five numbers (\<open>toISO\<close>), which is \<open>None\<close> where
  \<open>toISOString\<close> throws its RangeError. Only a string has \<open>split\<close>: on any other
  value the call throws a TypeError. Both exceptions end in the \<open>catch\<close>, the
  result \<open>null\<close> is \<open>None\<close>.
\<close>

definition timeOfDay_of :: "jsnum \<Rightarrow> string" where
  "timeOfDay_of hour =
     (if num_ge hour 5 \<and> num_lt hour 12 then ''morning''
      else if num_ge hour 12 \<and> num_lt hour 17 then ''afternoon''
      else if num_ge hour 17 \<and> num_lt hour 21 then ''evening''
      else ''night'')"

definition season_of :: "jsnum \<Rightarrow> string" where
  "season_of month =
     (if num_ge month 3 \<and> num_le month 5 then ''spring''
      else if num_ge month 6 \<and> num_le month 8 then ''summer''
      else if num_ge month 9 \<and> num_le month 11 then ''autumn''
      else ''winter'')"

definition getContextInfo ::
  "(string \<Rightarrow> jsnum) \<Rightarrow> (jsnum \<Rightarrow> jsnum \<Rightarrow> jsnum \<Rightarrow> jsnum \<Rightarrow> jsnum \<Rightarrow> string option) \<Rightarrow>
   jsval \<Rightarrow> jsval \<Rightarrow> contextInfo option" where
  "getContextInfo num toISO timeStr dateStr =
     (case (timeStr, dateStr) of
        (JStr t, JStr d) \<Rightarrow>
          (let ts = map num (split_on CHR '':'' t);
               ds = map num (split_on CHR ''-'' d);
               hour = element ts 0; minute = element ts 1;
               year = element ds 0; month = element ds 1; day = element ds 2
           in (case toISO year (minus1 month) day hour minute of
                 None \<Rightarrow> None
               | Some stamp \<Rightarrow>
                   Some \<lparr>timeOfDay = timeOfDay_of hour, season = season_of month,
                         datetime = stamp\<rparr>))
      | _ \<Rightarrow> None)"

text \<open>
  \<^verbatim>\<open>
  function generateFallbackPoem(time, date, location, contextInfo) {
    const timeOfDay = contextInfo?.timeOfDay || 'moment';
    const season = contextInfo?.season || 'season';
    return `"A ${timeOfDay} in ${location}" ... `;
  }
  \<close>
\<close>

definition or_else :: "string \<Rightarrow> string \<Rightarrow> string" where
  "or_else s d = (if s = [] then d else s)"

definition generateFallbackPoem :: "string \<Rightarrow> string \<Rightarrow> string \<Rightarrow> contextInfo option \<Rightarrow> string" where
  "generateFallbackPoem tm dt location ctx =
     (let tod = (case ctx of None \<Rightarrow> ''moment'' | Some c \<Rightarrow> or_else (timeOfDay c) ''moment'');
          sea = (case ctx of None \<Rightarrow> ''season'' | Some c \<Rightarrow> or_else (season c) ''season'')
      in [CHR 0x22] @ ''A '' @ tod @ '' in '' @ location @ [CHR 0x22, CHR 0x0A, CHR 0x0A] @
         ''In this '' @ tod @ '' hour, at '' @ tm @ '','' @ [CHR 0x0A] @
         ''The world unfolds in '' @ sea @ [CHR 0x27] @ ''s prime.'' @ [CHR 0x0A] @
         location @ [CHR 0x27] @ ''s beauty, a sight to behold,'' @ [CHR 0x0A] @
         ''As '' @ dt @ [CHR 0x27] @ ''s story begins to unfold.'' @ [CHR 0x0A, CHR 0x0A] @
         ''The rhythm of time, a gentle beat,'' @ [CHR 0x0A] @
         ''In this moment, our hearts complete.'' @ [CHR 0x0A] @
         ''A poem awaits, in future'' @ [CHR 0x27] @ ''s hand,'' @ [CHR 0x0A] @
         ''When systems align, as we planned.'')"

section \<open>The two upstream services\<close>

text \<open>
  The reverse-geocoding service answers with a JSON value. The server reads six
  components of its \<open>address\<close>, each a string when present; an absent component is
  \<open>None\<close>, and the empty string is falsy as in the language. \<open>GNull\<close> is the JSON
  \<open>null\<close>; \<open>GOther\<close> is any other value with no truthy \<open>address\<close>.
\<close>

record address =
  city :: "string option"
  town :: "string option"
  village :: "string option"
  county :: "string option"
  state :: "string option"
  country :: "string option"

datatype geo_json = GNull | GOther | GAddr address

text \<open>The JSON value that the generation service answers with.\<close>

datatype json =
    JsNull
  | JsBool bool
  | JsNum jsnum
  | JsStr string
  | JsArr "json list"
  | JsObj "(string \<times> json) list"

fun truthy_json :: "json \<Rightarrow> bool" where
  "truthy_json JsNull = False"
| "truthy_json (JsBool b) = b"
| "truthy_json (JsNum NaN) = False"
| "truthy_json (JsNum (Fin q)) = (q \<noteq> 0)"
| "truthy_json (JsNum PosInf) = True"
| "truthy_json (JsNum NegInf) = True"
| "truthy_json (JsStr s) = (s \<noteq> [])"
| "truthy_json (JsArr xs) = True"
| "truthy_json (JsObj kvs) = True"

text \<open>
  \<open>data.response\<close> on a value that is not \<open>null\<close>: the property of an object (its
  properties are listed once each, as \<open>JSON.parse\<close> builds them), \<open>undefined\<close>
  (\<open>None\<close>) on every other value.
\<close>

fun response_of :: "json \<Rightarrow> json option" where
  "response_of (JsObj kvs) = map_of kvs ''response''"
| "response_of _ = None"

definition truthy_opt :: "json option \<Rightarrow> bool" where
  "truthy_opt v = (case v of None \<Rightarrow> False | Some x \<Rightarrow> truthy_json x)"

text \<open>
  A \<open>fetch\<close> either rejects (the service cannot be reached) or resolves to a response
  with a status and a body. Reading the body fails when the stream breaks
  (\<open>Unreadable\<close>) or, as JSON, when the text does not parse (\<open>Malformed\<close>).
\<close>

datatype 'a http_body = Unreadable | Malformed | Parsed 'a

datatype 'a fetch_result = Rejected | Response nat "'a http_body"

definition ok :: "nat \<Rightarrow> bool" where
  "ok status = (200 \<le> status \<and> status < 300)"

text \<open>
  Every call is recorded. The world decides the answer to a call from the number of
  calls before it and from what is asked: the URL's coordinates, or the prompt posted
  to \<^verbatim>\<open>/api/generate\<close>.
\<close>

datatype request = Reverse jsval jsval | Generate string

record world =
  reverse :: "nat \<Rightarrow> jsval \<Rightarrow> jsval \<Rightarrow> geo_json fetch_result"
  generate :: "nat \<Rightarrow> string \<Rightarrow> json fetch_result"

record server =
  poemCache :: "string \<rightharpoonup> string"
  locationNameCache :: "string \<rightharpoonup> string"
  calls :: "request list"

definition fetch_reverse :: "world \<Rightarrow> server \<Rightarrow> jsval \<Rightarrow> jsval \<Rightarrow> geo_json fetch_result \<times> server" where
  "fetch_reverse w st lat lon =
     (reverse w (length (calls st)) lat lon, st\<lparr>calls := calls st @ [Reverse lat lon]\<rparr>)"

definition fetch_generate :: "world \<Rightarrow> server \<Rightarrow> string \<Rightarrow> json fetch_result \<times> server" where
  "fetch_generate w st prompt =
     (generate w (length (calls st)) prompt, st\<lparr>calls := calls st @ [Generate prompt]\<rparr>)"

section \<open>The generation client (services/ollama-service.js)\<close>

text \<open>
  \<^verbatim>\<open>
  async function isOllamaAvailable() {
    try {
      const response = await fetch(`${OLLAMA_API_URL}/api/generate`,
        { method: 'POST', ..., body: JSON.stringify({ model, prompt: 'Hello', stream: false }) });
      if (!response.ok) { return false; }
      const data = await response.json();
      const isAvailable = Boolean(data && data.response);
      return isAvailable;
    } catch (error) { return false; }
  }
  \<close>
\<close>

definition isOllamaAvailable :: "world \<Rightarrow> server \<Rightarrow> bool \<times> server" where
  "isOllamaAvailable w st =
     (let (r, st1) = fetch_generate w st ''Hello''
      in (case r of
            Rejected \<Rightarrow> (False, st1)
          | Response status b \<Rightarrow>
              if \<not> ok status then (False, st1)
              else (case b of
                      Parsed data \<Rightarrow> (truthy_json data \<and> truthy_opt (response_of data), st1)
                    | _ \<Rightarrow> (False, st1))))"

definition unavailable_message :: string where
  "unavailable_message =
     ''Sorry, the poem generation service is currently unavailable. Please try again later.''"

definition make_prompt :: "string \<Rightarrow> string \<Rightarrow> string \<Rightarrow> string" where
  "make_prompt location tm dt =
     ''Write a poem about '' @ location @ '' at '' @ tm @ '' on '' @ dt @
     ''. The poem should be evocative and reflect the mood of the time and place.''"

text \<open>
  \<^verbatim>\<open>
  async function generatePoem(location, time, date) {
    const ollamaAvailable = await isOllamaAvailable();
    if (!ollamaAvailable) {
      return 'Sorry, the poem generation service is currently unavailable. Please try again later.';
    }
    const cacheKey = `${location}-${time}-${date}`;
    if (poemCache.has(cacheKey)) { return poemCache.get(cacheKey); }
    try {
      const prompt = `Write a poem about ${location} at ${time} on ${date}. The poem ...`;
      const response = await fetch(`${OLLAMA_API_URL}/api/generate`, { ... prompt ... });
      if (!response.ok) { throw new Error(`Ollama API returned status: ${response.status}`); }
      const text = await response.text();
      let data;
      try { data = JSON.parse(text); }
      catch (error) { throw new Error('Failed to parse Ollama API response'); }
      if (!data || !data.response) { throw new Error('Unexpected Ollama API response format'); }
      const poem = data.response.trim();
      poemCache.set(cacheKey, poem);
      return poem;
    } catch (error) { throw error; }
  }
  \<close>
  \<open>Inl\<close> is the error thrown to the caller. A truthy \<open>response\<close> that is not a
  string has no \<open>trim\<close>: the call throws a TypeError (\<open>NotAFunction\<close>).
  \<open>generatePoem\<close> is a call that runs from its start to its end with no other call
  at work while it waits. The pieces between its \<open>await\<close>s, which calls in flight
  at the same time run in turn, follow it as \<open>begin_call\<close> and \<open>resume\<close>.
\<close>

definition generatePoem ::
  "world \<Rightarrow> server \<Rightarrow> string \<Rightarrow> string \<Rightarrow> string \<Rightarrow> (error + string) \<times> server" where
  "generatePoem w st location tm dt =
     (let (ollamaAvailable, st1) = isOllamaAvailable w st
      in if \<not> ollamaAvailable then (Inr unavailable_message, st1)
         else
           let cacheKey = location @ ''-'' @ tm @ ''-'' @ dt
           in (case poemCache st1 cacheKey of
                 Some cached \<Rightarrow> (Inr cached, st1)
               | None \<Rightarrow>
                   (let (r, st2) = fetch_generate w st1 (make_prompt location tm dt)
                    in (case r of
                          Rejected \<Rightarrow> (Inl FetchFailed, st2)
                        | Response status b \<Rightarrow>
                            if \<not> ok status then (Inl (HttpStatus status), st2)
                            else (case b of
                                    Unreadable \<Rightarrow> (Inl BodyUnreadable, st2)
                                  | Malformed \<Rightarrow> (Inl ParseFailed, st2)
                                  | Parsed data \<Rightarrow>
                                      if \<not> truthy_json data \<or> \<not> truthy_opt (response_of data)
                                      then (Inl UnexpectedFormat, st2)
                                      else (case response_of data of
                                              Some (JsStr s) \<Rightarrow>
                                                (let poem = trim s
                                                 in (Inr poem,
                                                     st2\<lparr>poemCache := (poemCache st2)(cacheKey \<mapsto> poem)\<rparr>))
                                            | _ \<Rightarrow> (Inl NotAFunction, st2)))))))"

text \<open>
  The function waits three times: for the probe (\<open>await isOllamaAvailable()\<close>, which
  itself waits for its \<open>fetch\<close> and for the JSON of the body and touches nothing
  shared in between), for the \<open>fetch\<close> of the poem, and for the text of its body.
  The cache is tested after the first wait and written after the third. A \<open>task\<close> is
  a call that waits, with the answer it will be given and its arguments, or a call that
  has returned or thrown. \<open>probe_passes\<close> is what \<open>isOllamaAvailable\<close> makes of the
  answer to its request.
\<close>

datatype task =
    AwaitProbe "json fetch_result" string string string
  | AwaitPoem "json fetch_result" string string string
  | AwaitText "json http_body" string string string
  | Done "error + string"

definition probe_passes :: "json fetch_result \<Rightarrow> bool" where
  "probe_passes r =
     (case r of
        Rejected \<Rightarrow> False
      | Response status b \<Rightarrow>
          if \<not> ok status then False
          else (case b of
                  Parsed data \<Rightarrow> truthy_json data \<and> truthy_opt (response_of data)
                | _ \<Rightarrow> False))"

definition begin_call :: "world \<Rightarrow> server \<Rightarrow> string \<Rightarrow> string \<Rightarrow> string \<Rightarrow> task \<times> server" where
  "begin_call w st location tm dt =
     (let (r, st1) = fetch_generate w st ''Hello''
      in (AwaitProbe r location tm dt, st1))"

fun resume :: "world \<Rightarrow> server \<Rightarrow> task \<Rightarrow> task \<times> server" where
  "resume w st (AwaitProbe r location tm dt) =
     (if \<not> probe_passes r then (Done (Inr unavailable_message), st)
      else
        let cacheKey = location @ ''-'' @ tm @ ''-'' @ dt
        in (case poemCache st cacheKey of
              Some cached \<Rightarrow> (Done (Inr cached), st)
            | None \<Rightarrow>
                (let (r', st1) = fetch_generate w st (make_prompt location tm dt)
                 in (AwaitPoem r' location tm dt, st1))))"
| "resume w st (AwaitPoem r location tm dt) =
     (case r of
        Rejected \<Rightarrow> (Done (Inl FetchFailed), st)
      | Response status b \<Rightarrow>
          if \<not> ok status then (Done (Inl (HttpStatus status)), st)
          else (AwaitText b location tm dt, st))"
| "resume w st (AwaitText b location tm dt) =
     (let cacheKey = location @ ''-'' @ tm @ ''-'' @ dt
      in (case b of
            Unreadable \<Rightarrow> (Done (Inl BodyUnreadable), st)
          | Malformed \<Rightarrow> (Done (Inl ParseFailed), st)
          | Parsed data \<Rightarrow>
              if \<not> truthy_json data \<or> \<not> truthy_opt (response_of data)
              then (Done (Inl UnexpectedFormat), st)
              else (case response_of data of
                      Some (JsStr s) \<Rightarrow>
                        (let poem = trim s
                         in (Done (Inr poem),
                             st\<lparr>poemCache := (poemCache st)(cacheKey \<mapsto> poem)\<rparr>))
                    | _ \<Rightarrow> (Done (Inl NotAFunction), st))))"
| "resume w st (Done outcome) = (Done outcome, st)"

text \<open>A call run alone: begun, and resumed three times with nothing in between.\<close>

definition run_alone :: "world \<Rightarrow> server \<Rightarrow> string \<Rightarrow> string \<Rightarrow> string \<Rightarrow> task \<times> server" where
  "run_alone w st location tm dt =
     (let (t0, s0) = begin_call w st location tm dt;
          (t1, s1) = resume w s0 t0;
          (t2, s2) = resume w s1 t1
      in resume w s2 t2)"

text \<open>
  The key that a call past its cache test will write the cache at, when it gets that
  far; a call still waiting for its probe, and one that has ended, have none.
\<close>

fun pending_key :: "task \<Rightarrow> string option" where
  "pending_key (AwaitProbe r location tm dt) = None"
| "pending_key (AwaitPoem r location tm dt) = Some (location @ ''-'' @ tm @ ''-'' @ dt)"
| "pending_key (AwaitText b location tm dt) = Some (location @ ''-'' @ tm @ ''-'' @ dt)"
| "pending_key (Done outcome) = None"

definition settled :: "string \<Rightarrow> task list \<Rightarrow> bool" where
  "settled key tasks = list_all (\<lambda>t. pending_key t \<noteq> Some key) tasks"

section \<open>Resolving a location\<close>

definition present :: "string option \<Rightarrow> bool" where
  "present v = (case v of None \<Rightarrow> False | Some s \<Rightarrow> s \<noteq> [])"

text \<open>\<open>a || b || ...\<close> where one of the operands is known to be truthy: the first such.\<close>

fun first_present :: "string option list \<Rightarrow> string" where
  "first_present [] = []"
| "first_present (v # vs) = (if present v then the v else first_present vs)"

text \<open>\<open>parts.join(', ')\<close>\<close>

fun join :: "string list \<Rightarrow> string" where
  "join [] = []"
| "join [p] = p"
| "join (p # q # ps) = p @ '', '' @ join (q # ps)"

text \<open>
  \<^verbatim>\<open>
  async function getLocationInfo(latitude, longitude) {
    try {
      const url = `https://nominatim.openstreetmap.org/reverse?format=json&lat=${latitude}&lon=${longitude}&zoom=10`;
      const response = await fetch(url, { headers: { 'User-Agent': 'PoemGeneratorApp/1.0' } });
      if (!response.ok) { throw new Error(`OpenStreetMap API error: ${response.status}`); }
      return await response.json();
    } catch (error) { return null; }
  }
  \<close>
  The body of the \<open>try\<close> first, with what it throws as \<open>Inl\<close>; then the function,
  whose \<open>catch\<close> turns every error into \<open>null\<close>.
\<close>

definition getLocationInfo_try ::
  "world \<Rightarrow> server \<Rightarrow> jsval \<Rightarrow> jsval \<Rightarrow> (error + geo_json) \<times> server" where
  "getLocationInfo_try w st lat lon =
     (let (r, st1) = fetch_reverse w st lat lon
      in (case r of
            Rejected \<Rightarrow> (Inl FetchFailed, st1)
          | Response status b \<Rightarrow>
              if \<not> ok status then (Inl (HttpStatus status), st1)
              else (case b of
                      Unreadable \<Rightarrow> (Inl BodyUnreadable, st1)
                    | Malformed \<Rightarrow> (Inl ParseFailed, st1)
                    | Parsed data \<Rightarrow> (Inr data, st1))))"

definition getLocationInfo :: "world \<Rightarrow> server \<Rightarrow> jsval \<Rightarrow> jsval \<Rightarrow> geo_json \<times> server" where
  "getLocationInfo w st lat lon =
     (case getLocationInfo_try w st lat lon of
        (Inl e, st1) \<Rightarrow> (GNull, st1)
      | (Inr data, st1) \<Rightarrow> (data, st1))"

text \<open>
  \<^verbatim>\<open>
  function formatLocationInfo(locationData) {
    try {
      if (!locationData || !locationData.address) { return 'unknown location'; }
      const address = locationData.address;
      const parts = [];
      if (address.city || address.town || address.village) {
        parts.push(address.city || address.town || address.village);
      }
      if (address.state || address.county) { parts.push(address.state || address.county); }
      if (address.country) { parts.push(address.country); }
      return parts.length > 0 ? parts.join(', ') : 'unknown location';
    } catch (error) { return 'unknown location'; }
  }
  \<close>
  Nothing in the \<open>try\<close> throws on these values.
\<close>

definition formatLocationInfo :: "geo_json \<Rightarrow> string" where
  "formatLocationInfo locationData =
     (case locationData of
        GNull \<Rightarrow> ''unknown location''
      | GOther \<Rightarrow> ''unknown location''
      | GAddr a \<Rightarrow>
          (let parts =
                 (if present (city a) \<or> present (town a) \<or> present (village a)
                  then [first_present [city a, town a, village a]] else []) @
                 (if present (state a) \<or> present (county a)
                  then [first_present [state a, county a]] else []) @
                 (if present (country a) then [first_present [country a]] else [])
           in if length parts > 0 then join parts else ''unknown location''))"

text \<open>
  \<open>x.toFixed(2)\<close> for a number below \<open>10^21\<close> in size: the sign, then the nearest
  hundredth, the larger one at a tie.
\<close>

fun toFixed2 :: "jsnum \<Rightarrow> string" where
  "toFixed2 NaN = ''NaN''"
| "toFixed2 PosInf = ''Infinity''"
| "toFixed2 NegInf = ''-Infinity''"
| "toFixed2 (Fin q) =
     (let n = nat \<lfloor>\<bar>q\<bar> * 100 + 1 / 2\<rfloor>
      in (if q < 0 then ''-'' else []) @ dec (n div 100) @ ''.'' @ pad2 (n mod 100))"

text \<open>
  \<^verbatim>\<open>
  async function getLocationName(lat, lon) {
    const cacheKey = `${lat.toFixed(2)},${lon.toFixed(2)}`;
    if (locationNameCache.has(cacheKey)) { return locationNameCache.get(cacheKey); }
    try {
      const response = await fetch(`https://nominatim.openstreetmap.org/reverse?...`);
      if (!response.ok) { throw new Error(`Geocoding API error: ${response.status}`); }
      const data = await response.json();
      let locationName = '';
      if (data.address) {
        if (data.address.city) { locationName = data.address.city; }
        else if (data.address.town) { locationName = data.address.town; }
        else if (data.address.village) { locationName = data.address.village; }
        else if (data.address.county) { locationName = data.address.county; }
        if (data.address.state && locationName) { locationName += `, ${data.address.state}`; }
        else if (data.address.country && locationName) { locationName += `, ${data.address.country}`; }
      }
      if (locationName) { locationNameCache.set(cacheKey, locationName); }
      return locationName || null;
    } catch (error) { return null; }
  }
  \<close>
  The coordinates are numbers, as the function's documentation has them. \<open>locationName_of\<close>
  is the name built inside the \<open>try\<close>; reading \<open>address\<close> of \<open>null\<close> throws there.
\<close>

definition locationName_of :: "address \<Rightarrow> string" where
  "locationName_of a =
     (let locationName =
            (if present (city a) then the (city a)
             else if present (town a) then the (town a)
             else if present (village a) then the (village a)
             else if present (county a) then the (county a)
             else [])
      in if present (state a) \<and> locationName \<noteq> [] then locationName @ '', '' @ the (state a)
         else if present (country a) \<and> locationName \<noteq> [] then locationName @ '', '' @ the (country a)
         else locationName)"

definition getLocationName :: "world \<Rightarrow> server \<Rightarrow> jsnum \<Rightarrow> jsnum \<Rightarrow> string option \<times> server" where
  "getLocationName w st lat lon =
     (let cacheKey = toFixed2 lat @ '','' @ toFixed2 lon
      in (case locationNameCache st cacheKey of
            Some cached \<Rightarrow> (Some cached, st)
          | None \<Rightarrow>
              (let (r, st1) = fetch_reverse w st (JNum lat) (JNum lon)
               in (case r of
                     Rejected \<Rightarrow> (None, st1)
                   | Response status b \<Rightarrow>
                       if \<not> ok status then (None, st1)
                       else (case b of
                               Parsed GNull \<Rightarrow> (None, st1)
                             | Parsed GOther \<Rightarrow> (None, st1)
                             | Parsed (GAddr a) \<Rightarrow>
                                 (let locationName = locationName_of a
                                  in if locationName \<noteq> []
                                     then (Some locationName,
                                           st1\<lparr>locationNameCache :=
                                                 (locationNameCache st1)(cacheKey \<mapsto> locationName)\<rparr>)
                                     else (None, st1))
                             | _ \<Rightarrow> (None, st1))))))"

text \<open>
  The rule in the spec's words, to compare the code with: the first present of city,
  town, village and county is the primary name, to which the state or, if the state is
  absent, the country is appended after a comma and a space. Without a primary name
  there is no name.
\<close>

definition spec_place_name :: "address \<Rightarrow> string option" where
  "spec_place_name a =
     (case filter present [city a, town a, village a, county a] of
        [] \<Rightarrow> None
      | primary # _ \<Rightarrow>
          Some (the primary @
                (if present (state a) then '', '' @ the (state a)
                 else if present (country a) then '', '' @ the (country a)
                 else [])))"

text \<open>
  The name of the routes in words, to compare \<open>formatLocationInfo\<close> with: the first
  present of city, town and village, the first present of state and county, and the
  country, as far as they are present, joined by a comma and a space;
  \<open>unknown location\<close> when none is present.
\<close>

definition first_of :: "string option list \<Rightarrow> string option" where
  "first_of vs = (case filter present vs of [] \<Rightarrow> None | v # _ \<Rightarrow> v)"

definition joined_place_name :: "address \<Rightarrow> string" where
  "joined_place_name a =
     (case map the (filter present
             [first_of [city a, town a, village a], first_of [state a, county a],
              first_of [country a]]) of
        [] \<Rightarrow> ''unknown location''
      | p # ps \<Rightarrow> foldl (\<lambda>s q. s @ '', '' @ q) p ps)"

section \<open>The routes (server.js)\<close>

text \<open>
  \<^verbatim>\<open>
  app.post('/api/poem', validatePoemRequest, async (req, res) => {
    try {
      const { latitude, longitude, time, date } = req.body;
      let locationInfo = 'unknown location';
      try {
        const locationData = await getLocationInfo(latitude, longitude);
        locationInfo = formatLocationInfo(locationData);
      } catch (error) { }
      const poem = await ollamaService.generatePoem(locationInfo, time, date);
      if (!poem) { return res.status(500).json({ error: 'Failed to generate poem' }); }
      res.json({ poem });
    } catch (error) {
      res.status(500).json({ error: 'Failed to generate poem', details: error.message });
    }
  });
  \<close>
  \<open>poem_route\<close> is the handler, on a body that the middleware has passed on;
  \<open>post_poem\<close> is the middleware followed by the handler. \<open>poem_reply\<close> is what
  the handler sends for the outcome of \<open>generatePoem\<close>: the error that the outer
  \<open>catch\<close> reports stands for its message.
\<close>

definition poem_reply :: "error + string \<Rightarrow> reply" where
  "poem_reply r =
     (case r of
        Inl e \<Rightarrow> Reply 500 (Failure ''Failed to generate poem'' (Some e))
      | Inr poem \<Rightarrow>
          if poem = [] then Reply 500 (Failure ''Failed to generate poem'' None)
          else Reply 200 (Poem poem))"

definition poem_route :: "world \<Rightarrow> server \<Rightarrow> body \<Rightarrow> reply \<times> server" where
  "poem_route w st b =
     (let (locationData, st1) = getLocationInfo w st (latitude b) (longitude b);
          locationInfo = formatLocationInfo locationData;
          (r, st2) = generatePoem w st1 locationInfo (interpolate (time b)) (interpolate (date b))
      in (poem_reply r, st2))"

definition post_poem :: "(string \<Rightarrow> jsnum) \<Rightarrow> clock \<Rightarrow> world \<Rightarrow> server \<Rightarrow> body \<Rightarrow> reply \<times> server" where
  "post_poem pf now w st b =
     (case validatePoemRequest pf now b of
        Inl rejected \<Rightarrow> (rejected, st)
      | Inr b' \<Rightarrow> poem_route w st b')"

text \<open>
  \<^verbatim>\<open>
  app.get('/api/location', async (req, res) => {
    try {
      const { latitude, longitude } = req.query;
      if (!latitude || !longitude || !validateCoordinates(latitude, longitude)) {
        return res.status(400).json({ error: 'Valid latitude and longitude are required' });
      }
      const locationData = await getLocationInfo(latitude, longitude);
      const locationName = formatLocationInfo(locationData);
      res.json({ locationName });
    } catch (error) {
      res.status(500).json({ error: 'Failed to get location name', details: error.message });
    }
  });
  \<close>
  The body of the \<open>try\<close> with what it throws as \<open>Inl\<close>, then the route with its
  \<open>catch\<close>.
\<close>

definition location_try ::
  "(string \<Rightarrow> jsnum) \<Rightarrow> world \<Rightarrow> server \<Rightarrow> jsval \<Rightarrow> jsval \<Rightarrow> (error + reply) \<times> server" where
  "location_try pf w st lat lon =
     (if \<not> truthy lat \<or> \<not> truthy lon \<or> \<not> validateCoordinates pf lat lon
      then (Inr (Reply 400 (Failure ''Valid latitude and longitude are required'' None)), st)
      else
        let (locationData, st1) = getLocationInfo w st lat lon;
            locationName = formatLocationInfo locationData
        in (Inr (Reply 200 (LocationName locationName)), st1))"

definition get_location ::
  "(string \<Rightarrow> jsnum) \<Rightarrow> world \<Rightarrow> server \<Rightarrow> jsval \<Rightarrow> jsval \<Rightarrow> reply \<times> server" where
  "get_location pf w st lat lon =
     (case location_try pf w st lat lon of
        (Inl e, st1) \<Rightarrow> (Reply 500 (Failure ''Failed to get location name'' (Some e)), st1)
      | (Inr r, st1) \<Rightarrow> (r, st1))"

text \<open>
  The server at work on several requests at the same time. The runtime starts a call of
  \<open>generatePoem\<close>, lets the waiting call with the given number go on to its next wait
  or to its end, or runs one of the two resolvers of a location, which touch nothing
  that \<open>generatePoem\<close> reads or writes but the log of the calls. A poem request is a
  \<open>Geocode\<close> and then a \<open>Start\<close> with the place found. \<open>interleave\<close> gives the server
  and the calls in flight after a list of such events.
\<close>

datatype event = Start string string string | Resume nat
  | Geocode jsval jsval | GeocodeName jsnum jsnum

fun interleave :: "world \<Rightarrow> server \<Rightarrow> task list \<Rightarrow> event list \<Rightarrow> server \<times> task list" where
  "interleave w st tasks [] = (st, tasks)"
| "interleave w st tasks (Start location tm dt # es) =
     (let (t, st1) = begin_call w st location tm dt
      in interleave w st1 (tasks @ [t]) es)"
| "interleave w st tasks (Resume i # es) =
     (if i < length tasks
      then (let (t, st1) = resume w st (tasks ! i)
            in interleave w st1 (tasks[i := t]) es)
      else interleave w st tasks es)"
| "interleave w st tasks (Geocode lat lon # es) =
     interleave w (snd (getLocationInfo w st lat lon)) tasks es"
| "interleave w st tasks (GeocodeName lat lon # es) =
     interleave w (snd (getLocationName w st lat lon)) tasks es"

section \<open>The rate limiter\<close>

text \<open>
  \<^verbatim>\<open>
  const limiter = rateLimit({
    windowMs: parseInt(process.env.RATE_LIMIT_WINDOW_MS) || 60000, // 1 minute
    max: parseInt(process.env.RATE_LIMIT_MAX_REQUESTS) || 100, // limit each IP to 100 requests per windowMs
    standardHeaders: true, legacyHeaders: false,
    message: 'Too many requests, please try again later.'
  });
  \<close>
  An environment variable is a string or unset. \<open>parseInt\<close> of \<open>undefined\<close> is NaN;
  on a string it is the host's reading (\<open>pint\<close>). \<open>n || d\<close> is \<open>d\<close> when \<open>n\<close>
  is NaN or zero.
\<close>

record environment =
  RATE_LIMIT_WINDOW_MS :: "string option"
  RATE_LIMIT_MAX_REQUESTS :: "string option"

definition parseInt :: "(string \<Rightarrow> jsnum) \<Rightarrow> string option \<Rightarrow> jsnum" where
  "parseInt pint v = (case v of None \<Rightarrow> NaN | Some s \<Rightarrow> pint s)"

definition or_number :: "jsnum \<Rightarrow> rat \<Rightarrow> jsnum" where
  "or_number n d = (if n = NaN \<or> n = Fin 0 then Fin d else n)"

record options =
  windowMs :: jsnum
  max_hits :: jsnum
  message :: string

definition limiter :: "(string \<Rightarrow> jsnum) \<Rightarrow> environment \<Rightarrow> options" where
  "limiter pint env =
     \<lparr>windowMs = or_number (parseInt pint (RATE_LIMIT_WINDOW_MS env)) 60000,
      max_hits = or_number (parseInt pint (RATE_LIMIT_MAX_REQUESTS env)) 100,
      message = ''Too many requests, please try again later.''\<rparr>"

record rateWindow =
  hits :: nat
  windowStart :: nat

text \<open>
  Modelled from the spec: the counting done by the \<open>rateLimit\<close> middleware, which is a
  package the server depends on and not among its sources. The spec's RateWindow is a
  counter and a window-start timestamp for each client identity, reset when the window
  has elapsed; a request beyond the maximum within the window receives 429 with the
  textual message. Times are milliseconds of a clock that does not run backwards.
  \<open>None\<close> lets the request through to the routes.
\<close>

definition rateLimit ::
  "options \<Rightarrow> (string \<rightharpoonup> rateWindow) \<Rightarrow> string \<Rightarrow> nat \<Rightarrow> reply option \<times> (string \<rightharpoonup> rateWindow)" where
  "rateLimit opts table client now =
     (let current =
            (case table client of
               None \<Rightarrow> \<lparr>hits = 0, windowStart = now\<rparr>
             | Some rw \<Rightarrow>
                 if num_le (windowMs opts) (of_nat (now - windowStart rw))
                 then \<lparr>hits = 0, windowStart = now\<rparr>
                 else rw);
          counted = current\<lparr>hits := hits current + 1\<rparr>
      in (if num_lt (max_hits opts) (of_nat (hits counted))
          then Some (Reply 429 (Text (message opts)))
          else None,
          table(client \<mapsto> counted)))"

text \<open>
  \<^verbatim>\<open>
  app.use(express.static(path.join(__dirname, 'public')));
  app.use('/api/', limiter);
  app.post('/api/poem', ...); app.get('/api/health', ...); app.get('/api/location', ...);
  \<close>
  The limiter stands before the three routes under \<^verbatim>\<open>/api/\<close> and not before the
  static files. \<open>serve\<close> gives its answers to one client's requests, each a time and
  the route asked for, in order.
\<close>

datatype route = ApiPoem | ApiHealth | ApiLocation | StaticFile

fun limited :: "route \<Rightarrow> bool" where
  "limited StaticFile = False"
| "limited _ = True"

fun serve ::
  "options \<Rightarrow> (string \<rightharpoonup> rateWindow) \<Rightarrow> string \<Rightarrow> (nat \<times> route) list \<Rightarrow> reply option list" where
  "serve opts table client [] = []"
| "serve opts table client ((t, r) # rs) =
     (if limited r
      then (let (answer, table') = rateLimit opts table client t
            in answer # serve opts table' client rs)
      else None # serve opts table client rs)"

section \<open>Hosts and worlds to run the model on\<close>

text \<open>
  The value of a string of decimal digits, and a reading of strings that is exact on
  such strings: there it agrees with the host's \<open>Number\<close>, \<open>parseFloat\<close> and
  \<open>parseInt\<close>.
\<close>

definition digit_value :: "char \<Rightarrow> nat" where
  "digit_value c = of_char c - 48"

definition decimal :: "string \<Rightarrow> nat" where
  "decimal s = foldl (\<lambda>a c. 10 * a + digit_value c) 0 s"

definition read_digits :: "string \<Rightarrow> jsnum" where
  "read_digits s = (if s \<noteq> [] \<and> list_all is_digit s then Fin (of_nat (decimal s)) else NaN)"

text \<open>
  What the theorems on \<open>getContextInfo\<close> ask of a host: \<open>Number\<close> reads a string
  of one to four digits as its decimal value (of a longer string of digits it may
  give a rounded value or Infinity); a date built from a NaN is invalid, so its
  \<open>toISOString\<close> throws; a date built from a year of at most four digits, a month
  and a day of at most two, an hour below 24 and a minute below 60 is valid.
\<close>

definition reads_decimal :: "(string \<Rightarrow> jsnum) \<Rightarrow> bool" where
  "reads_decimal num =
     (\<forall>s. s \<noteq> [] \<and> length s \<le> 4 \<and> list_all is_digit s \<longrightarrow> num s = Fin (of_nat (decimal s)))"

definition throws_on_NaN :: "(jsnum \<Rightarrow> jsnum \<Rightarrow> jsnum \<Rightarrow> jsnum \<Rightarrow> jsnum \<Rightarrow> string option) \<Rightarrow> bool" where
  "throws_on_NaN toISO =
     (\<forall>y m d h mi. y = NaN \<or> m = NaN \<or> d = NaN \<or> h = NaN \<or> mi = NaN \<longrightarrow> toISO y m d h mi = None)"

definition valid_in_range :: "(jsnum \<Rightarrow> jsnum \<Rightarrow> jsnum \<Rightarrow> jsnum \<Rightarrow> jsnum \<Rightarrow> string option) \<Rightarrow> bool" where
  "valid_in_range toISO =
     (\<forall>y m d h mi :: nat. y < 10000 \<and> m < 100 \<and> d < 100 \<and> h < 24 \<and> mi < 60 \<longrightarrow>
        toISO (Fin (of_nat y)) (Fin (of_nat m - 1)) (Fin (of_nat d)) (Fin (of_nat h)) (Fin (of_nat mi))
          \<noteq> None)"

text \<open>A host in the UTC zone, asked only for the morning of 1 March 2025 at 09:57.\<close>

definition example_toISO :: "jsnum \<Rightarrow> jsnum \<Rightarrow> jsnum \<Rightarrow> jsnum \<Rightarrow> jsnum \<Rightarrow> string option" where
  "example_toISO y m d h mi =
     (if y = NaN \<or> m = NaN \<or> d = NaN \<or> h = NaN \<or> mi = NaN then None
      else Some ''2025-03-01T09:57:00.000Z'')"

definition empty_server :: server where
  "empty_server = \<lparr>poemCache = Map.empty, locationNameCache = Map.empty, calls = []\<rparr>"

definition reno :: address where
  "reno = \<lparr>city = Some ''Reno'', town = None, village = None, county = None,
           state = Some ''Nevada'', country = None\<rparr>"

text \<open>A world where nothing can be reached.\<close>

definition down_world :: world where
  "down_world = \<lparr>reverse = (\<lambda>n lat lon. Rejected), generate = (\<lambda>n prompt. Rejected)\<rparr>"

text \<open>A world where both services answer, the generation service always with \<open>txt\<close>.\<close>

definition up_world :: "string \<Rightarrow> world" where
  "up_world txt =
     \<lparr>reverse = (\<lambda>n lat lon. Response 200 (Parsed (GAddr reno))),
      generate = (\<lambda>n prompt. Response 200 (Parsed (JsObj [(''response'', JsStr txt)])))\<rparr>"

text \<open>
  A world where the generation service answers the probe and fails on every other
  prompt with status 500.
\<close>

definition failing_world :: world where
  "failing_world =
     \<lparr>reverse = (\<lambda>n lat lon. Response 200 (Parsed (GAddr reno))),
      generate = (\<lambda>n prompt.
         if prompt = ''Hello'' then Response 200 (Parsed (JsObj [(''response'', JsStr ''Hi'')]))
         else Response 500 Malformed)\<rparr>"

text \<open>
  A world where the generation service answers the probe, and every other prompt with
  a text of white space only.
\<close>

definition blank_world :: world where
  "blank_world =
     \<lparr>reverse = (\<lambda>n lat lon. Response 200 (Parsed (GAddr reno))),
      generate = (\<lambda>n prompt.
         if prompt = ''Hello'' then Response 200 (Parsed (JsObj [(''response'', JsStr ''Hi'')]))
         else Response 200 (Parsed (JsObj [(''response'', JsStr [CHR '' '', CHR 0x0A, CHR '' ''])])))\<rparr>"

text \<open>The request of the spec's example, and the clock at that moment.\<close>

definition reno_request :: body where
  "reno_request =
     \<lparr>latitude = JNum (Fin (3953 / 100)), longitude = JNum (Fin (- 11981 / 100)),
      time = JStr ''09:57'', date = JStr ''2025-03-01''\<rparr>"

definition reno_clock :: clock where
  "reno_clock = \<lparr>getHours = 9, getMinutes = 57, isoDate = ''2025-03-01''\<rparr>"

text \<open>
  A world where the generation service answers the probe, the poem requests among the
  first three calls with one text and the later ones with another.
\<close>

definition varying_world :: world where
  "varying_world =
     \<lparr>reverse = (\<lambda>n lat lon. Response 200 (Parsed (GAddr reno))),
      generate = (\<lambda>n prompt.
         if prompt = ''Hello'' then Response 200 (Parsed (JsObj [(''response'', JsStr ''Hi'')]))
         else Response 200
                (Parsed (JsObj [(''response'', JsStr (if n < 3 then ''First'' else ''Second''))])))\<rparr>"

text \<open>The environment with no variable set.\<close>

definition unset :: environment where
  "unset = \<lparr>RATE_LIMIT_WINDOW_MS = None, RATE_LIMIT_MAX_REQUESTS = None\<rparr>"

text \<open>
  One request every 100 ms from time 0 on, to the poem route and the location route
  in turn.
\<close>

definition burst :: "nat \<Rightarrow> (nat \<times> route) list" where
  "burst n = map (\<lambda>i. (100 * i, if even i then ApiPoem else ApiLocation)) [0..<n]"


text \<open>The server after one successful call for Reno at 09:57 on 2025-03-01.\<close>

definition reno_served :: server where
  "reno_served =
     \<lparr>poemCache = [''Reno, Nevada-09:57-2025-03-01'' \<mapsto> ''A poem''],
      locationNameCache = Map.empty,
      calls = [Generate ''Hello'',
               Generate (make_prompt ''Reno, Nevada'' ''09:57'' ''2025-03-01'')]\<rparr>"

text \<open>
  Work of the server after it has served Reno: a look-up of a place, a poem for Paris
  and one more for Reno, the two in flight at the same time; and the server after it.
\<close>

definition reno_traffic :: "event list" where
  "reno_traffic =
     [Geocode (JNum (Fin 48)) (JNum (Fin 2)),
      Start ''Paris'' ''10:00'' ''2025-03-02'',
      Start ''Reno, Nevada'' ''09:57'' ''2025-03-01'',
      Resume 0, Resume 1, Resume 0, Resume 0]"

definition reno_later :: server where
  "reno_later =
     \<lparr>poemCache = [''Reno, Nevada-09:57-2025-03-01'' \<mapsto> ''A poem'',
                   ''Paris-10:00-2025-03-02'' \<mapsto> ''A poem''],
      locationNameCache = Map.empty,
      calls = [Generate ''Hello'',
               Generate (make_prompt ''Reno, Nevada'' ''09:57'' ''2025-03-01''),
               Reverse (JNum (Fin 48)) (JNum (Fin 2)),
               Generate ''Hello'', Generate ''Hello'',
               Generate (make_prompt ''Paris'' ''10:00'' ''2025-03-02'')]\<rparr>"

text \<open>
  Two calls for Reno in flight at the same time on a fresh server: both are begun, both
  pass the probe and miss the cache, and the first one is brought to its end.
\<close>

definition overlap :: "event list" where
  "overlap =
     [Start ''Reno, Nevada'' ''09:57'' ''2025-03-01'',
      Start ''Reno, Nevada'' ''09:57'' ''2025-03-01'',
      Resume 0, Resume 1, Resume 0, Resume 0]"

section \<open>The context of a time and a date\<close>

lemma digit_not_sep: "is_digit c \<Longrightarrow> c \<noteq> CHR '':'' \<and> c \<noteq> CHR ''-''"
  by (auto simp: is_digit_def)

lemma digit_value_less: "is_digit c \<Longrightarrow> digit_value c < 10"
  by (auto simp: is_digit_def digit_value_def)

lemma decimal2: "decimal [a, b] = 10 * digit_value a + digit_value b"
  by (simp add: decimal_def)

lemma decimal4: "decimal [a, b, c, d] =
    1000 * digit_value a + 100 * digit_value b + 10 * digit_value c + digit_value d"
  by (simp add: decimal_def)

lemma time_pattern_shape [consumes 1, case_names shape]:
  assumes "time_pattern t"
  obtains a b d e where "t = [a, b, CHR '':'', d, e]" "is_digit a" "is_digit b" "is_digit d" "is_digit e"
    "decimal [a, b] < 24" "decimal [d, e] < 60"
proof (cases t rule: time_pattern.cases)
  case (1 a b c d e)
  with assms have sh: "t = [a, b, CHR '':'', d, e]" and b: "is_digit b \<or> b \<in> set ''0123''" and e: "is_digit e"
    and a: "a \<in> set ''012''" and d: "d \<in> set ''012345''"
    by auto
  from b have b': "is_digit b" by (auto simp: is_digit_def)
  from a have a': "is_digit a" by (auto simp: is_digit_def)
  from d have d': "is_digit d" by (auto simp: is_digit_def)
  from assms 1 have "decimal [a, b] < 24"
    using digit_value_less [of b] by (auto simp: decimal2 digit_value_def)
  moreover from d have "decimal [d, e] < 60"
    using digit_value_less [OF e] by (auto simp: decimal2 digit_value_def)
  ultimately show ?thesis using that sh a' b' d' e by blast
qed (use assms in auto)

lemma split_time:
  assumes "time_pattern t"
  shows "split_on CHR '':'' t = [take 2 t, drop 3 t]"
  using assms by (cases rule: time_pattern_shape) (auto dest!: digit_not_sep)

lemma date_pattern_shape [consumes 1, case_names shape]:
  assumes "date_pattern d"
  obtains y1 y2 y3 y4 m1 m2 d1 d2 where
    "d = [y1, y2, y3, y4, CHR ''-'', m1, m2, CHR ''-'', d1, d2]"
    "is_digit y1" "is_digit y2" "is_digit y3" "is_digit y4"
    "is_digit m1" "is_digit m2" "is_digit d1" "is_digit d2"
  using assms by (cases d rule: date_pattern.cases) auto

lemma split_date:
  assumes "date_pattern d"
  shows "split_on CHR ''-'' d = [take 4 d, take 2 (drop 5 d), drop 8 d]"
  using assms by (cases rule: date_pattern_shape) (auto dest!: digit_not_sep)

lemma decimal2_less: "is_digit a \<Longrightarrow> is_digit b \<Longrightarrow> decimal [a, b] < 100"
  using digit_value_less [of a] digit_value_less [of b] by (simp add: decimal2)

lemma decimal4_less:
  "is_digit a \<Longrightarrow> is_digit b \<Longrightarrow> is_digit c \<Longrightarrow> is_digit d \<Longrightarrow> decimal [a, b, c, d] < 10000"
  using digit_value_less [of a] digit_value_less [of b] digit_value_less [of c] digit_value_less [of d]
  by (simp add: decimal4)



lemma timeOfDay_of_nat:
  "timeOfDay_of (Fin (of_nat h)) =
     (if 5 \<le> h \<and> h < 12 then ''morning''
      else if 12 \<le> h \<and> h < 17 then ''afternoon''
      else if 17 \<le> h \<and> h < 21 then ''evening''
      else ''night'')"
proof -
  have "num_ge (Fin (of_nat h)) (of_nat k) = (k \<le> h)" "num_lt (Fin (of_nat h)) (of_nat k) = (h < k)" for k
    by simp_all
  from this [of 5] this [of 12] this [of 17] this [of 21]
  show ?thesis unfolding timeOfDay_of_def by (simp del: num_ge.simps num_lt.simps)
qed

lemma season_of_nat:
  "season_of (Fin (of_nat m)) =
     (if 3 \<le> m \<and> m \<le> 5 then ''spring''
      else if 6 \<le> m \<and> m \<le> 8 then ''summer''
      else if 9 \<le> m \<and> m \<le> 11 then ''autumn''
      else ''winter'')"
proof -
  have "num_ge (Fin (of_nat m)) (of_nat k) = (k \<le> m)" "num_le (Fin (of_nat m)) (of_nat k) = (m \<le> k)" for k
    by simp_all
  from this [of 3] this [of 5] this [of 6] this [of 8] this [of 9] this [of 11]
  show ?thesis unfolding season_of_def by (simp del: num_ge.simps num_le.simps)
qed

lemma context_of_components:
  assumes "map num (split_on CHR '':'' t) = [hour, minute]"
    and "map num (split_on CHR ''-'' d) = [year, month, day]"
    and "toISO year (minus1 month) day hour minute = Some stamp"
  shows "getContextInfo num toISO (JStr t) (JStr d) =
           Some \<lparr>timeOfDay = timeOfDay_of hour, season = season_of month, datetime = stamp\<rparr>"
  using assms by (simp add: getContextInfo_def element_def)

lemma time_components:
  assumes num: "reads_decimal num" and t: "time_pattern t"
  shows "\<exists>hour minute. hour < 24 \<and> minute < 60 \<and> decimal (take 2 t) = hour \<and>
           map num (split_on CHR '':'' t) = [Fin (of_nat hour), Fin (of_nat minute)]"
  using t
proof (cases rule: time_pattern_shape)
  case (shape a b c e)
  have "num [a, b] = Fin (of_nat (decimal [a, b]))" "num [c, e] = Fin (of_nat (decimal [c, e]))"
    using num shape by (simp_all add: reads_decimal_def)
  moreover have "take 2 t = [a, b]" "drop 3 t = [c, e]"
    by (simp_all add: shape)
  ultimately show ?thesis
    using shape(6,7) by (simp add: split_time [OF t])
qed

lemma date_components:
  assumes num: "reads_decimal num" and d: "date_pattern d"
  shows "\<exists>year month day. year < 10000 \<and> month < 100 \<and> day < 100 \<and>
           decimal (take 2 (drop 5 d)) = month \<and>
           map num (split_on CHR ''-'' d) = [Fin (of_nat year), Fin (of_nat month), Fin (of_nat day)]"
  using d
proof (cases rule: date_pattern_shape)
  case (shape y1 y2 y3 y4 m1 m2 d1 d2)
  have "num [y1, y2, y3, y4] = Fin (of_nat (decimal [y1, y2, y3, y4]))"
    "num [m1, m2] = Fin (of_nat (decimal [m1, m2]))" "num [d1, d2] = Fin (of_nat (decimal [d1, d2]))"
    using num shape by (simp_all add: reads_decimal_def)
  moreover have "take 4 d = [y1, y2, y3, y4]" "take 2 (drop 5 d) = [m1, m2]" "drop 8 d = [d1, d2]"
    by (simp_all add: shape)
  moreover have "decimal [y1, y2, y3, y4] < 10000" "decimal [m1, m2] < 100" "decimal [d1, d2] < 100"
    using shape by (simp_all add: decimal2_less decimal4_less)
  ultimately show ?thesis
    by (simp add: split_date [OF d])
qed

lemma getContextInfo_wellformed:
  assumes num: "reads_decimal num" and ok: "valid_in_range toISO"
    and t: "time_pattern t" and d: "date_pattern d"
  shows "\<exists>stamp. getContextInfo num toISO (JStr t) (JStr d) =
           Some \<lparr>timeOfDay = timeOfDay_of (Fin (of_nat (decimal (take 2 t)))),
                  season = season_of (Fin (of_nat (decimal (take 2 (drop 5 d))))),
                  datetime = stamp\<rparr>"
proof -
  from time_components [OF num t] obtain hour minute where
    tc: "hour < 24" "minute < 60" "decimal (take 2 t) = hour"
      "map num (split_on CHR '':'' t) = [Fin (of_nat hour), Fin (of_nat minute)]"
    by (elim exE conjE)
  from date_components [OF num d] obtain year month day where
    dc: "year < 10000" "month < 100" "day < 100" "decimal (take 2 (drop 5 d)) = month"
      "map num (split_on CHR ''-'' d) = [Fin (of_nat year), Fin (of_nat month), Fin (of_nat day)]"
    by (elim exE conjE)
  from ok tc(1,2) dc(1-3) obtain stamp where
    "toISO (Fin (of_nat year)) (Fin (of_nat month - 1)) (Fin (of_nat day))
       (Fin (of_nat hour)) (Fin (of_nat minute)) = Some stamp"
    unfolding valid_in_range_def by fastforce
  then have "toISO (Fin (of_nat year)) (minus1 (Fin (of_nat month))) (Fin (of_nat day))
       (Fin (of_nat hour)) (Fin (of_nat minute)) = Some stamp"
    by simp
  then have "getContextInfo num toISO (JStr t) (JStr d) =
      Some \<lparr>timeOfDay = timeOfDay_of (Fin (of_nat hour)), season = season_of (Fin (of_nat month)),
             datetime = stamp\<rparr>"
    by (rule context_of_components [where toISO = toISO, OF tc(4) dc(5)])
  then show ?thesis
    unfolding tc(3) dc(4) by (rule exI)
qed

lemma getContextInfo_NaN:
  assumes "throws_on_NaN toISO"
    and "element (map num (split_on CHR '':'' t)) 0 = NaN \<or>
         element (map num (split_on CHR '':'' t)) 1 = NaN \<or>
         element (map num (split_on CHR ''-'' d)) 0 = NaN \<or>
         element (map num (split_on CHR ''-'' d)) 1 = NaN \<or>
         element (map num (split_on CHR ''-'' d)) 2 = NaN"
  shows "getContextInfo num toISO (JStr t) (JStr d) = None"
proof -
  have "minus1 m = NaN" if "m = NaN" for m
    using that by simp
  with assms have
    "toISO (element (map num (split_on CHR ''-'' d)) 0)
       (minus1 (element (map num (split_on CHR ''-'' d)) 1))
       (element (map num (split_on CHR ''-'' d)) 2)
       (element (map num (split_on CHR '':'' t)) 0)
       (element (map num (split_on CHR '':'' t)) 1) = None"
    unfolding throws_on_NaN_def by metis
  then show ?thesis
    by (simp add: getContextInfo_def Let_def)
qed

lemma getContextInfo_not_string:
  assumes "(\<forall>s. tv \<noteq> JStr s) \<or> (\<forall>s. dv \<noteq> JStr s)"
  shows "getContextInfo num toISO tv dv = None"
  using assms by (cases tv; cases dv) (simp_all add: getContextInfo_def)


lemma timeOfDay_of_bands:
  "(5 \<le> h \<and> h < 12 \<longrightarrow> timeOfDay_of (Fin (of_nat h)) = ''morning'') \<and>
   (12 \<le> h \<and> h < 17 \<longrightarrow> timeOfDay_of (Fin (of_nat h)) = ''afternoon'') \<and>
   (17 \<le> h \<and> h < 21 \<longrightarrow> timeOfDay_of (Fin (of_nat h)) = ''evening'') \<and>
   (h < 5 \<or> 21 \<le> h \<longrightarrow> timeOfDay_of (Fin (of_nat h)) = ''night'')"
  by (simp add: timeOfDay_of_nat)

lemma season_of_bands:
  "(3 \<le> m \<and> m \<le> 5 \<longrightarrow> season_of (Fin (of_nat m)) = ''spring'') \<and>
   (6 \<le> m \<and> m \<le> 8 \<longrightarrow> season_of (Fin (of_nat m)) = ''summer'') \<and>
   (9 \<le> m \<and> m \<le> 11 \<longrightarrow> season_of (Fin (of_nat m)) = ''autumn'') \<and>
   (m < 3 \<or> 11 < m \<longrightarrow> season_of (Fin (of_nat m)) = ''winter'')"
  by (simp add: season_of_nat)

text \<open>
  Claim C7. For a well-formed time \<open>HH:MM\<close> and date \<open>YYYY-MM-DD\<close> the context has
  the time of day of the hour (5 to 11 morning, 12 to 16 afternoon, 17 to 20 evening,
  night otherwise) and the season of the month (3 to 5 spring, 6 to 8 summer, 9 to 11
  autumn, winter otherwise). When a component of the time or the date is missing or not
  a number, or an argument is not a string, the result is \<open>null\<close> and nothing is
  thrown to the caller. The host is any that reads digits as decimals and whose dates
  are invalid when built from NaN and valid in the range of the well-formed strings.
\<close>

theorem getContextInfo_bands:
  assumes "reads_decimal num" and "throws_on_NaN toISO" and "valid_in_range toISO"
  shows "(time_pattern t \<and> date_pattern d \<longrightarrow>
            (\<exists>c. getContextInfo num toISO (JStr t) (JStr d) = Some c \<and>
               (5 \<le> decimal (take 2 t) \<and> decimal (take 2 t) < 12 \<longrightarrow> timeOfDay c = ''morning'') \<and>
               (12 \<le> decimal (take 2 t) \<and> decimal (take 2 t) < 17 \<longrightarrow> timeOfDay c = ''afternoon'') \<and>
               (17 \<le> decimal (take 2 t) \<and> decimal (take 2 t) < 21 \<longrightarrow> timeOfDay c = ''evening'') \<and>
               (decimal (take 2 t) < 5 \<or> 21 \<le> decimal (take 2 t) \<longrightarrow> timeOfDay c = ''night'') \<and>
               (3 \<le> decimal (take 2 (drop 5 d)) \<and> decimal (take 2 (drop 5 d)) \<le> 5 \<longrightarrow>
                  season c = ''spring'') \<and>
               (6 \<le> decimal (take 2 (drop 5 d)) \<and> decimal (take 2 (drop 5 d)) \<le> 8 \<longrightarrow>
                  season c = ''summer'') \<and>
               (9 \<le> decimal (take 2 (drop 5 d)) \<and> decimal (take 2 (drop 5 d)) \<le> 11 \<longrightarrow>
                  season c = ''autumn'') \<and>
               (decimal (take 2 (drop 5 d)) < 3 \<or> 11 < decimal (take 2 (drop 5 d)) \<longrightarrow>
                  season c = ''winter''))) \<and>
         (element (map num (split_on CHR '':'' t)) 0 = NaN \<or>
          element (map num (split_on CHR '':'' t)) 1 = NaN \<or>
          element (map num (split_on CHR ''-'' d)) 0 = NaN \<or>
          element (map num (split_on CHR ''-'' d)) 1 = NaN \<or>
          element (map num (split_on CHR ''-'' d)) 2 = NaN \<longrightarrow>
            getContextInfo num toISO (JStr t) (JStr d) = None) \<and>
         ((\<forall>s. tv \<noteq> JStr s) \<or> (\<forall>s. dv \<noteq> JStr s) \<longrightarrow> getContextInfo num toISO tv dv = None)"
proof (intro conjI impI)
  assume "time_pattern t \<and> date_pattern d"
  then have "time_pattern t" "date_pattern d"
    by simp_all
  from getContextInfo_wellformed [OF assms(1) assms(3) this] obtain stamp where
    "getContextInfo num toISO (JStr t) (JStr d) =
       Some \<lparr>timeOfDay = timeOfDay_of (Fin (of_nat (decimal (take 2 t)))),
              season = season_of (Fin (of_nat (decimal (take 2 (drop 5 d))))),
              datetime = stamp\<rparr>"
    by (elim exE)
  then show "\<exists>c. getContextInfo num toISO (JStr t) (JStr d) = Some c \<and>
               (5 \<le> decimal (take 2 t) \<and> decimal (take 2 t) < 12 \<longrightarrow> timeOfDay c = ''morning'') \<and>
               (12 \<le> decimal (take 2 t) \<and> decimal (take 2 t) < 17 \<longrightarrow> timeOfDay c = ''afternoon'') \<and>
               (17 \<le> decimal (take 2 t) \<and> decimal (take 2 t) < 21 \<longrightarrow> timeOfDay c = ''evening'') \<and>
               (decimal (take 2 t) < 5 \<or> 21 \<le> decimal (take 2 t) \<longrightarrow> timeOfDay c = ''night'') \<and>
               (3 \<le> decimal (take 2 (drop 5 d)) \<and> decimal (take 2 (drop 5 d)) \<le> 5 \<longrightarrow>
                  season c = ''spring'') \<and>
               (6 \<le> decimal (take 2 (drop 5 d)) \<and> decimal (take 2 (drop 5 d)) \<le> 8 \<longrightarrow>
                  season c = ''summer'') \<and>
               (9 \<le> decimal (take 2 (drop 5 d)) \<and> decimal (take 2 (drop 5 d)) \<le> 11 \<longrightarrow>
                  season c = ''autumn'') \<and>
               (decimal (take 2 (drop 5 d)) < 3 \<or> 11 < decimal (take 2 (drop 5 d)) \<longrightarrow>
                  season c = ''winter'')"
    using timeOfDay_of_bands [of "decimal (take 2 t)"] season_of_bands [of "decimal (take 2 (drop 5 d))"]
    by simp
next
  assume "element (map num (split_on CHR '':'' t)) 0 = NaN \<or>
          element (map num (split_on CHR '':'' t)) 1 = NaN \<or>
          element (map num (split_on CHR ''-'' d)) 0 = NaN \<or>
          element (map num (split_on CHR ''-'' d)) 1 = NaN \<or>
          element (map num (split_on CHR ''-'' d)) 2 = NaN"
  with assms(2) show "getContextInfo num toISO (JStr t) (JStr d) = None"
    by (rule getContextInfo_NaN)
next
  assume "(\<forall>s. tv \<noteq> JStr s) \<or> (\<forall>s. dv \<noteq> JStr s)"
  then show "getContextInfo num toISO tv dv = None"
    by (rule getContextInfo_not_string)
qed

lemma reads_decimal_read_digits: "reads_decimal read_digits"
  by (simp add: reads_decimal_def read_digits_def)

lemma example_toISO_host: "throws_on_NaN example_toISO \<and> valid_in_range example_toISO"
  by (simp add: throws_on_NaN_def valid_in_range_def example_toISO_def)

text \<open>The theorem at 09:57 on 2025-03-01, at the time \<open>soon\<close>, and at an undefined time.\<close>

theorem getContextInfo_bands_witness:
  "reads_decimal read_digits \<and> throws_on_NaN example_toISO \<and> valid_in_range example_toISO \<and>
   time_pattern ''09:57'' \<and> date_pattern ''2025-03-01'' \<and>
   getContextInfo read_digits example_toISO (JStr ''09:57'') (JStr ''2025-03-01'') \<noteq> None \<and>
   timeOfDay (the (getContextInfo read_digits example_toISO (JStr ''09:57'') (JStr ''2025-03-01''))) =
     ''morning'' \<and>
   season (the (getContextInfo read_digits example_toISO (JStr ''09:57'') (JStr ''2025-03-01''))) =
     ''spring'' \<and>
   element (map read_digits (split_on CHR '':'' ''soon'')) 0 = NaN \<and>
   getContextInfo read_digits example_toISO (JStr ''soon'') (JStr ''2025-03-01'') = None \<and>
   getContextInfo read_digits example_toISO JUndefined (JStr ''2025-03-01'') = None"
proof -
  have host: "reads_decimal read_digits" "throws_on_NaN example_toISO" "valid_in_range example_toISO"
    using reads_decimal_read_digits example_toISO_host by simp_all
  have shape: "time_pattern ''09:57''" "date_pattern ''2025-03-01''"
    by (simp_all add: is_digit_def)
  have hm: "decimal (take 2 ''09:57'') = 9" "decimal (take 2 (drop 5 ''2025-03-01'')) = 3"
    by (simp_all add: decimal_def digit_value_def)
  have nan: "element (map read_digits (split_on CHR '':'' ''soon'')) 0 = NaN"
    by (simp add: element_def read_digits_def is_digit_def)
  note inst = getContextInfo_bands [OF host, of _ _ JUndefined "JStr ''2025-03-01''"]
  from inst [of "''09:57''" "''2025-03-01''"] shape hm
  have "\<exists>c. getContextInfo read_digits example_toISO (JStr ''09:57'') (JStr ''2025-03-01'') = Some c \<and>
          timeOfDay c = ''morning'' \<and> season c = ''spring''"
    by simp
  then have first:
    "getContextInfo read_digits example_toISO (JStr ''09:57'') (JStr ''2025-03-01'') \<noteq> None"
    "timeOfDay (the (getContextInfo read_digits example_toISO (JStr ''09:57'') (JStr ''2025-03-01''))) =
       ''morning''"
    "season (the (getContextInfo read_digits example_toISO (JStr ''09:57'') (JStr ''2025-03-01''))) =
       ''spring''"
    by auto
  from inst [of "''soon''" "''2025-03-01''"] nan
  have second: "getContextInfo read_digits example_toISO (JStr ''soon'') (JStr ''2025-03-01'') = None"
    by simp
  from inst [of "''soon''" "''2025-03-01''"]
  have third: "getContextInfo read_digits example_toISO JUndefined (JStr ''2025-03-01'') = None"
    by simp
  from host shape first nan second third show ?thesis by simp
qed

section \<open>The location route\<close>

lemma getLocationInfo_failure:
  "fst (getLocationInfo_try w st lat lon) = Inl e \<Longrightarrow> fst (getLocationInfo w st lat lon) = GNull"
  by (cases "getLocationInfo_try w st lat lon") (simp add: getLocationInfo_def)

lemma getLocationInfo_calls:
  "snd (getLocationInfo w st lat lon) = st\<lparr>calls := calls st @ [Reverse lat lon]\<rparr>"
  by (simp add: getLocationInfo_def getLocationInfo_try_def fetch_reverse_def
      split: prod.splits fetch_result.splits http_body.splits)

lemma formatLocationInfo_unusable:
  "formatLocationInfo GNull = ''unknown location''"
  "formatLocationInfo GOther = ''unknown location''"
  "\<not> present (city a) \<Longrightarrow> \<not> present (town a) \<Longrightarrow> \<not> present (village a) \<Longrightarrow>
   \<not> present (state a) \<Longrightarrow> \<not> present (county a) \<Longrightarrow> \<not> present (country a) \<Longrightarrow>
   formatLocationInfo (GAddr a) = ''unknown location''"
  by (simp_all add: formatLocationInfo_def)

lemma location_try_never_throws: "fst (location_try pf w st lat lon) \<noteq> Inl e"
  by (simp add: location_try_def split: prod.splits)

lemma get_location_valid:
  assumes "truthy lat" "truthy lon" "validateCoordinates pf lat lon"
  shows "fst (get_location pf w st lat lon) =
           Reply 200 (LocationName (formatLocationInfo (fst (getLocationInfo w st lat lon))))"
  using assms by (simp add: get_location_def location_try_def split: prod.splits)

text \<open>
  Claim C10. On \<^verbatim>\<open>GET /api/location\<close> with coordinates that pass validation the reply
  is 200 with the formatted name. Whatever the geocoding service does, the body of the
  route's \<open>try\<close> throws nothing, so the reply is never the 500 of its \<open>catch\<close>:
  \<open>getLocationInfo\<close> turns every failure of the call into \<open>null\<close>, and
  \<open>formatLocationInfo\<close> maps \<open>null\<close>, a value without address and an address with
  no usable component to \<open>unknown location\<close>.
\<close>

theorem location_route_never_500:
  "(truthy lat \<and> truthy lon \<and> validateCoordinates pf lat lon \<longrightarrow>
      fst (get_location pf w st lat lon) =
        Reply 200 (LocationName (formatLocationInfo (fst (getLocationInfo w st lat lon)))) \<and>
      (fst (getLocationInfo_try w st lat lon) = Inl e \<longrightarrow>
         fst (get_location pf w st lat lon) = Reply 200 (LocationName ''unknown location''))) \<and>
   fst (location_try pf w st lat lon) \<noteq> Inl e' \<and>
   fst (get_location pf w st lat lon) \<noteq> Reply 500 p \<and>
   formatLocationInfo GNull = ''unknown location'' \<and>
   formatLocationInfo GOther = ''unknown location'' \<and>
   (\<not> present (city a) \<and> \<not> present (town a) \<and> \<not> present (village a) \<and>
    \<not> present (state a) \<and> \<not> present (county a) \<and> \<not> present (country a) \<longrightarrow>
      formatLocationInfo (GAddr a) = ''unknown location'')"
proof (intro conjI impI)
  assume v: "truthy lat \<and> truthy lon \<and> validateCoordinates pf lat lon"
  then show r: "fst (get_location pf w st lat lon) =
        Reply 200 (LocationName (formatLocationInfo (fst (getLocationInfo w st lat lon))))"
    by (simp add: get_location_valid)
  assume "fst (getLocationInfo_try w st lat lon) = Inl e"
  then have "fst (getLocationInfo w st lat lon) = GNull"
    by (rule getLocationInfo_failure)
  with r show "fst (get_location pf w st lat lon) = Reply 200 (LocationName ''unknown location'')"
    by (simp add: formatLocationInfo_unusable)
next
  show "fst (location_try pf w st lat lon) \<noteq> Inl e'"
    by (rule location_try_never_throws)
  show "fst (get_location pf w st lat lon) \<noteq> Reply 500 p"
    by (simp add: get_location_def location_try_def split: prod.splits)
qed (simp_all add: formatLocationInfo_unusable)

text \<open>The theorem at latitude 39 and longitude 7 with the geocoding service out of reach.\<close>

theorem location_route_never_500_witness:
  "truthy (JStr ''39'') \<and> truthy (JStr ''7'') \<and>
   validateCoordinates read_digits (JStr ''39'') (JStr ''7'') \<and>
   fst (getLocationInfo_try down_world empty_server (JStr ''39'') (JStr ''7'')) = Inl FetchFailed \<and>
   fst (get_location read_digits down_world empty_server (JStr ''39'') (JStr ''7'')) =
     Reply 200 (LocationName ''unknown location'') \<and>
   \<not> present (city \<lparr>city = None, town = Some [], village = None, county = None, state = None,
                     country = None\<rparr>) \<and>
   formatLocationInfo (GAddr \<lparr>city = None, town = Some [], village = None, county = None,
                              state = None, country = None\<rparr>) = ''unknown location''"
proof -
  have v: "truthy (JStr ''39'')" "truthy (JStr ''7'')"
    "validateCoordinates read_digits (JStr ''39'') (JStr ''7'')"
    by (simp_all add: validateCoordinates_def read_digits_def is_digit_def decimal_def digit_value_def)
  have f: "fst (getLocationInfo_try down_world empty_server (JStr ''39'') (JStr ''7'')) = Inl FetchFailed"
    by (simp add: getLocationInfo_try_def fetch_reverse_def down_world_def)
  have p: "\<not> present (city \<lparr>city = None, town = Some [], village = None, county = None, state = None,
                     country = None\<rparr>)"
    by (simp add: present_def)
  from v f p
    location_route_never_500 [of "JStr ''39''" "JStr ''7''" read_digits down_world empty_server
      FetchFailed FetchFailed "Text []" "\<lparr>city = None, town = Some [], village = None, county = None, state = None,
                     country = None\<rparr>"]
  show ?thesis by (auto simp: present_def)
qed

section \<open>Validation of a poem request\<close>

lemma validate_rejects_out_of_range:
  "validatePoemRequest pf now (b\<lparr>latitude := JNum (Fin 91)\<rparr>) =
     Inl (Reply 400 (Failure ''Valid latitude and longitude are required'' None))"
  "validatePoemRequest pf now (b\<lparr>longitude := JNum (Fin (- 181))\<rparr>) =
     Inl (Reply 400 (Failure ''Valid latitude and longitude are required'' None))"
  by (simp_all add: validatePoemRequest_def validateCoordinates_def)

lemma validate_defaults_time_and_date:
  assumes "validatePoemRequest pf now b = Inr b'"
  shows "latitude b' = latitude b \<and> longitude b' = longitude b \<and>
         time b' = (if truthy (time b) \<and> validateTime (time b) then time b
                    else JStr (pad2 (getHours now) @ '':'' @ pad2 (getMinutes now))) \<and>
         date b' = (if truthy (date b) \<and> validateDate (date b) then date b else JStr (isoDate now))"
  using assms by (auto simp: validatePoemRequest_def Let_def split: if_splits)

text \<open>
  Claim C4. The claim has latitude 0 and longitude 0 accepted. \<open>validateCoordinates\<close>
  accepts them, but the middleware tests \<open>!latitude || !longitude\<close> first, and the
  number 0 is falsy: the request is answered 400. (Latitude 91 and longitude -181 are
  rejected, and a missing or malformed time or date is replaced by the server's, as the
  two lemmas above show.)
\<close>

theorem zero_coordinates_rejected:
  "validateCoordinates pf (JNum (Fin 0)) (JNum (Fin 0)) \<and>
   validatePoemRequest pf now
     \<lparr>latitude = JNum (Fin 0), longitude = JNum (Fin 0), time = tm, date = dt\<rparr> =
     Inl (Reply 400 (Failure ''Valid latitude and longitude are required'' None)) \<and>
   fst (post_poem pf now w st
     \<lparr>latitude = JNum (Fin 0), longitude = JNum (Fin 0), time = tm, date = dt\<rparr>) =
     Reply 400 (Failure ''Valid latitude and longitude are required'' None)"
  by (simp add: validateCoordinates_def validatePoemRequest_def post_poem_def)

text \<open>
  The same at 09:57 on 2025-03-01 with both services up; the route that reads the
  coordinates from the query string accepts the strings \<open>0\<close> and \<open>0\<close>.
\<close>

theorem zero_coordinates_rejected_witness:
  "validateCoordinates read_digits (JNum (Fin 0)) (JNum (Fin 0)) \<and>
   fst (post_poem read_digits \<lparr>getHours = 9, getMinutes = 57, isoDate = ''2025-03-01''\<rparr>
          (up_world ''A poem'') empty_server
          \<lparr>latitude = JNum (Fin 0), longitude = JNum (Fin 0), time = JStr ''09:57'',
             date = JStr ''2025-03-01''\<rparr>) =
     Reply 400 (Failure ''Valid latitude and longitude are required'' None) \<and>
   fst (get_location read_digits (up_world ''A poem'') empty_server (JStr ''0'') (JStr ''0'')) =
     Reply 200 (LocationName ''Reno, Nevada'')"
proof -
  have "fst (get_location read_digits (up_world ''A poem'') empty_server (JStr ''0'') (JStr ''0'')) =
     Reply 200 (LocationName ''Reno, Nevada'')"
    by (simp add: get_location_def location_try_def validateCoordinates_def read_digits_def
        is_digit_def decimal_def digit_value_def getLocationInfo_def getLocationInfo_try_def
        fetch_reverse_def up_world_def ok_def formatLocationInfo_def reno_def present_def)
  with zero_coordinates_rejected [of read_digits
      "\<lparr>getHours = 9, getMinutes = 57, isoDate = ''2025-03-01''\<rparr>" "JStr ''09:57''"
      "JStr ''2025-03-01''" "up_world ''A poem''" empty_server]
  show ?thesis by simp
qed

section \<open>Generating a poem\<close>

lemma trim_examples:
  "trim ''  A poem '' = ''A poem''"
  "trim [CHR '' '', CHR 0x0A, CHR '' ''] = []"
  by (simp_all add: trim_def trimStart_def trimEnd_def is_space_def is_space2_def is_space3_def)

lemma isOllamaAvailable_calls:
  "snd (isOllamaAvailable w st) = st\<lparr>calls := calls st @ [Generate ''Hello'']\<rparr>"
  by (simp add: isOllamaAvailable_def fetch_generate_def
      split: prod.splits fetch_result.splits http_body.splits)

lemma generatePoem_unavailable:
  assumes "\<not> fst (isOllamaAvailable w st)"
  shows "generatePoem w st location tm dt =
           (Inr unavailable_message, st\<lparr>calls := calls st @ [Generate ''Hello'']\<rparr>)"
proof -
  obtain a st1 where p: "isOllamaAvailable w st = (a, st1)"
    by (cases "isOllamaAvailable w st")
  with assms isOllamaAvailable_calls [of w st] show ?thesis
    by (simp add: generatePoem_def)
qed

lemma generatePoem_cached:
  assumes "fst (isOllamaAvailable w st)"
    and "poemCache st (location @ ''-'' @ tm @ ''-'' @ dt) = Some p"
  shows "generatePoem w st location tm dt =
           (Inr p, st\<lparr>calls := calls st @ [Generate ''Hello'']\<rparr>)"
proof -
  obtain a st1 where p: "isOllamaAvailable w st = (a, st1)"
    by (cases "isOllamaAvailable w st")
  with assms isOllamaAvailable_calls [of w st] show ?thesis
    by (simp add: generatePoem_def)
qed

text \<open>The outcome of the generation call proper, as a function of the answer.\<close>

lemma generatePoem_miss:
  assumes "fst (isOllamaAvailable w st)"
    and "poemCache st (location @ ''-'' @ tm @ ''-'' @ dt) = None"
  shows "generatePoem w st location tm dt =
     (let st1 = st\<lparr>calls := calls st @ [Generate ''Hello'']\<rparr>;
          st2 = st1\<lparr>calls := calls st1 @ [Generate (make_prompt location tm dt)]\<rparr>
      in (case generate w (Suc (length (calls st))) (make_prompt location tm dt) of
            Rejected \<Rightarrow> (Inl FetchFailed, st2)
          | Response status b \<Rightarrow>
              if \<not> ok status then (Inl (HttpStatus status), st2)
              else (case b of
                      Unreadable \<Rightarrow> (Inl BodyUnreadable, st2)
                    | Malformed \<Rightarrow> (Inl ParseFailed, st2)
                    | Parsed data \<Rightarrow>
                        if \<not> truthy_json data \<or> \<not> truthy_opt (response_of data)
                        then (Inl UnexpectedFormat, st2)
                        else (case response_of data of
                                Some (JsStr s) \<Rightarrow>
                                  (Inr (trim s),
                                   st2\<lparr>poemCache := (poemCache st2)
                                          (location @ ''-'' @ tm @ ''-'' @ dt \<mapsto> trim s)\<rparr>)
                              | _ \<Rightarrow> (Inl NotAFunction, st2)))))"
proof -
  obtain a st1 where p: "isOllamaAvailable w st = (a, st1)"
    by (cases "isOllamaAvailable w st")
  with assms isOllamaAvailable_calls [of w st] show ?thesis
    by (simp add: generatePoem_def fetch_generate_def Let_def
        split: fetch_result.splits http_body.splits option.splits json.splits)
qed


lemma poem_route_unfold:
  "poem_route w st b =
     (let st1 = st\<lparr>calls := calls st @ [Reverse (latitude b) (longitude b)]\<rparr>;
          r = generatePoem w st1 (formatLocationInfo (fst (getLocationInfo w st (latitude b) (longitude b))))
                (interpolate (time b)) (interpolate (date b))
      in (poem_reply (fst r), snd r))"
proof -
  obtain g st1 where g: "getLocationInfo w st (latitude b) (longitude b) = (g, st1)"
    by (cases "getLocationInfo w st (latitude b) (longitude b)")
  with getLocationInfo_calls [of w st "latitude b" "longitude b"]
  show ?thesis
    by (simp add: poem_route_def Let_def split: prod.splits)
qed

text \<open>
  Claim C1, as the code has it. When the availability probe fails, \<open>generatePoem\<close>
  makes no call but the probe (one POST to \<^verbatim>\<open>/api/generate\<close> with the prompt
  \<open>Hello\<close>), leaves the caches as they were and returns the fixed text
  \<open>unavailable_message\<close>, the same for every place, time and date; for a request
  that has passed validation the route sends it as \<open>200 {poem}\<close>, after the
  geocoding call and the probe and no other call. The text is not a text of the
  fallback composer, whatever that is given.
\<close>

theorem probe_failure_returns_apology:
  "(\<not> fst (isOllamaAvailable w st) \<longrightarrow>
      generatePoem w st location tm dt =
        (Inr unavailable_message, st\<lparr>calls := calls st @ [Generate ''Hello'']\<rparr>)) \<and>
   (validatePoemRequest pf now b0 = Inr b \<and>
    \<not> fst (isOllamaAvailable w (st\<lparr>calls := calls st @ [Reverse (latitude b) (longitude b)]\<rparr>)) \<longrightarrow>
      post_poem pf now w st b0 =
        (Reply 200 (Poem unavailable_message),
         st\<lparr>calls := calls st @ [Reverse (latitude b) (longitude b), Generate ''Hello'']\<rparr>)) \<and>
   generateFallbackPoem tm' dt' location' ctx \<noteq> unavailable_message"
proof (intro conjI impI)
  assume "\<not> fst (isOllamaAvailable w st)"
  then show "generatePoem w st location tm dt =
        (Inr unavailable_message, st\<lparr>calls := calls st @ [Generate ''Hello'']\<rparr>)"
    by (rule generatePoem_unavailable)
next
  assume "validatePoemRequest pf now b0 = Inr b \<and>
    \<not> fst (isOllamaAvailable w (st\<lparr>calls := calls st @ [Reverse (latitude b) (longitude b)]\<rparr>))"
  then show "post_poem pf now w st b0 =
        (Reply 200 (Poem unavailable_message),
         st\<lparr>calls := calls st @ [Reverse (latitude b) (longitude b), Generate ''Hello'']\<rparr>)"
    by (simp add: post_poem_def poem_route_unfold generatePoem_unavailable poem_reply_def
        unavailable_message_def)
next
  show "generateFallbackPoem tm' dt' location' ctx \<noteq> unavailable_message"
    by (simp add: generateFallbackPoem_def unavailable_message_def Let_def)
qed

lemma reno_request_valid: "validatePoemRequest read_digits reno_clock reno_request = Inr reno_request"
  by (simp add: validatePoemRequest_def validateCoordinates_def reno_request_def is_digit_def)

lemma down_world_unavailable: "\<not> fst (isOllamaAvailable down_world st)"
  by (simp add: isOllamaAvailable_def fetch_generate_def down_world_def)

text \<open>
  The theorem for Reno at 09:57 on 2025-03-01, with nothing in reach.
\<close>

theorem probe_failure_returns_apology_witness:
  "\<not> fst (isOllamaAvailable down_world empty_server) \<and>
   generatePoem down_world empty_server ''Reno, Nevada'' ''09:57'' ''2025-03-01'' =
     (Inr unavailable_message, empty_server\<lparr>calls := [Generate ''Hello'']\<rparr>) \<and>
   validatePoemRequest read_digits reno_clock reno_request = Inr reno_request \<and>
   post_poem read_digits reno_clock down_world empty_server reno_request =
     (Reply 200 (Poem unavailable_message),
      empty_server\<lparr>calls := [Reverse (latitude reno_request) (longitude reno_request),
                               Generate ''Hello'']\<rparr>) \<and>
   generateFallbackPoem ''09:57'' ''2025-03-01'' ''Reno, Nevada'' None \<noteq> unavailable_message"
  using probe_failure_returns_apology [of down_world empty_server "''Reno, Nevada''" "''09:57''"
      "''2025-03-01''" read_digits reno_clock reno_request reno_request "''09:57''" "''2025-03-01''"
      "''Reno, Nevada''" None]
    down_world_unavailable reno_request_valid
  by (simp add: empty_server_def)

text \<open>
  Claim C1 as stated fails: with the probe failing, the text returned for Reno at 09:57
  on 2025-03-01 contains neither the place nor the date, and is not the fallback
  composer's text, with or without a context.
\<close>

theorem probe_failure_not_fallback:
  "fst (generatePoem down_world empty_server ''Reno, Nevada'' ''09:57'' ''2025-03-01'') =
     Inr unavailable_message \<and>
   \<not> sublist ''Reno, Nevada'' unavailable_message \<and>
   \<not> sublist ''2025-03-01'' unavailable_message \<and>
   unavailable_message \<noteq>
     generateFallbackPoem ''09:57'' ''2025-03-01'' ''Reno, Nevada''
       (Some \<lparr>timeOfDay = ''morning'', season = ''spring'', datetime = ''2025-03-01T09:57:00.000Z''\<rparr>) \<and>
   unavailable_message \<noteq> generateFallbackPoem ''09:57'' ''2025-03-01'' ''Reno, Nevada'' None \<and>
   fst (post_poem read_digits reno_clock down_world empty_server reno_request) =
     Reply 200 (Poem unavailable_message)"
proof -
  have 1: "fst (generatePoem down_world empty_server ''Reno, Nevada'' ''09:57'' ''2025-03-01'') =
     Inr unavailable_message"
    by (simp add: generatePoem_unavailable down_world_unavailable)
  have 2: "\<not> sublist ''Reno, Nevada'' unavailable_message"
    unfolding unavailable_message_def by (simp add: sublist_code(3))
  have 3: "\<not> sublist ''2025-03-01'' unavailable_message"
    unfolding unavailable_message_def by (simp add: sublist_code(3))
  have 4: "unavailable_message \<noteq>
     generateFallbackPoem ''09:57'' ''2025-03-01'' ''Reno, Nevada''
       (Some \<lparr>timeOfDay = ''morning'', season = ''spring'', datetime = ''2025-03-01T09:57:00.000Z''\<rparr>)"
    by (simp add: unavailable_message_def generateFallbackPoem_def or_else_def)
  have 5: "unavailable_message \<noteq> generateFallbackPoem ''09:57'' ''2025-03-01'' ''Reno, Nevada'' None"
    by (simp add: unavailable_message_def generateFallbackPoem_def)
  have "validatePoemRequest read_digits reno_clock reno_request = Inr reno_request"
    by (simp add: validatePoemRequest_def validateCoordinates_def reno_request_def is_digit_def)
  then have 6: "fst (post_poem read_digits reno_clock down_world empty_server reno_request) =
     Reply 200 (Poem unavailable_message)"
    by (simp add: post_poem_def poem_route_unfold generatePoem_unavailable down_world_unavailable
        poem_reply_def unavailable_message_def)
  from 1 2 3 4 5 6 show ?thesis by simp
qed


lemma generatePoem_failure:
  assumes av: "fst (isOllamaAvailable w st)"
    and miss: "poemCache st (location @ ''-'' @ tm @ ''-'' @ dt) = None"
  shows "(generate w (Suc (length (calls st))) (make_prompt location tm dt) = Rejected \<longrightarrow>
            fst (generatePoem w st location tm dt) = Inl FetchFailed) \<and>
         (generate w (Suc (length (calls st))) (make_prompt location tm dt) = Response status b \<and>
            \<not> ok status \<longrightarrow>
            fst (generatePoem w st location tm dt) = Inl (HttpStatus status)) \<and>
         (generate w (Suc (length (calls st))) (make_prompt location tm dt) = Response status Unreadable \<and>
            ok status \<longrightarrow>
            fst (generatePoem w st location tm dt) = Inl BodyUnreadable) \<and>
         (generate w (Suc (length (calls st))) (make_prompt location tm dt) = Response status Malformed \<and>
            ok status \<longrightarrow>
            fst (generatePoem w st location tm dt) = Inl ParseFailed) \<and>
         (generate w (Suc (length (calls st))) (make_prompt location tm dt) =
            Response status (Parsed data) \<and> ok status \<and>
            (\<not> truthy_json data \<or> \<not> truthy_opt (response_of data)) \<longrightarrow>
            fst (generatePoem w st location tm dt) = Inl UnexpectedFormat)"
  by (auto simp: generatePoem_miss [OF av miss] Let_def)

lemma poem_reply_cases:
  "(\<exists>poem. poem \<noteq> [] \<and> poem_reply r = Reply 200 (Poem poem)) \<or>
   (\<exists>e. poem_reply r = Reply 500 (Failure ''Failed to generate poem'' e))"
  by (cases r) (auto simp: poem_reply_def)


lemma generatePoem_caches:
  assumes av: "fst (isOllamaAvailable w st)"
    and r: "generatePoem w st location tm dt = (Inr p, st1)"
  shows "poemCache st1 (location @ ''-'' @ tm @ ''-'' @ dt) = Some p"
proof (cases "poemCache st (location @ ''-'' @ tm @ ''-'' @ dt)")
  case None
  from r show ?thesis
    unfolding generatePoem_miss [OF av None]
    by (auto simp: Let_def split: fetch_result.splits http_body.splits if_splits option.splits
        json.splits)
next
  case (Some q)
  from r show ?thesis
    unfolding generatePoem_cached [OF av Some] using Some by auto
qed

text \<open>The pieces of a call, run one after the other with nothing in between, are the call.\<close>

lemma isOllamaAvailable_probe:
  "isOllamaAvailable w st =
     (probe_passes (generate w (length (calls st)) ''Hello''),
      st\<lparr>calls := calls st @ [Generate ''Hello'']\<rparr>)"
  by (simp add: isOllamaAvailable_def probe_passes_def fetch_generate_def
      split: fetch_result.splits http_body.splits)

lemma run_alone_generatePoem:
  "run_alone w st location tm dt =
     (Done (fst (generatePoem w st location tm dt)), snd (generatePoem w st location tm dt))"
  by (simp add: run_alone_def begin_call_def generatePoem_def isOllamaAvailable_probe
      fetch_generate_def Let_def
      split: fetch_result.splits http_body.splits option.splits json.splits)

text \<open>
  An entry of the cache stays as it is while no call in flight is past its cache test
  for the same key: no step of a call removes an entry, and a call that tests the cache
  when the entry is there ends at once.
\<close>

lemma resume_keeps:
  assumes c: "poemCache st key = Some p" and k: "pending_key t \<noteq> Some key"
  shows "poemCache (snd (resume w st t)) key = Some p \<and>
         pending_key (fst (resume w st t)) \<noteq> Some key"
proof (cases t)
  case (AwaitProbe r location tm dt)
  show ?thesis
  proof (cases "location @ ''-'' @ tm @ ''-'' @ dt = key")
    case True
    with c AwaitProbe show ?thesis by simp
  next
    case False
    with c AwaitProbe show ?thesis
      by (simp add: fetch_generate_def Let_def split: option.splits)
  qed
next
  case (AwaitPoem r location tm dt)
  with c k show ?thesis by (simp split: fetch_result.splits)
next
  case (AwaitText b location tm dt)
  with c k show ?thesis
    by (simp add: Let_def split: http_body.splits option.splits json.splits)
next
  case (Done outcome)
  with c show ?thesis by simp
qed

lemma settled_update:
  "settled key tasks \<Longrightarrow> pending_key t \<noteq> Some key \<Longrightarrow> settled key (tasks[i := t])"
  unfolding settled_def list_all_iff
  using set_update_subset_insert [of tasks i t] by auto

lemma settled_nth:
  "settled key tasks \<Longrightarrow> i < length tasks \<Longrightarrow> pending_key (tasks ! i) \<noteq> Some key"
  unfolding settled_def list_all_iff by simp

lemma getLocationName_poemCache:
  "poemCache (snd (getLocationName w st lat lon)) = poemCache st"
  by (simp add: getLocationName_def fetch_reverse_def Let_def
      split: fetch_result.splits http_body.splits option.splits geo_json.splits prod.splits)

lemma interleave_keeps:
  "poemCache st key = Some p \<Longrightarrow> settled key tasks \<Longrightarrow>
     poemCache (fst (interleave w st tasks es)) key = Some p \<and>
     settled key (snd (interleave w st tasks es))"
proof (induction es arbitrary: st tasks)
  case Nil
  then show ?case by simp
next
  case (Cons e es)
  show ?case
  proof (cases e)
    case (Start location tm dt)
    have "poemCache (snd (begin_call w st location tm dt)) key = Some p"
      using Cons.prems(1) by (simp add: begin_call_def fetch_generate_def)
    moreover have "settled key (tasks @ [fst (begin_call w st location tm dt)])"
      using Cons.prems(2) by (simp add: begin_call_def fetch_generate_def settled_def)
    ultimately show ?thesis
      using Cons.IH [of "snd (begin_call w st location tm dt)"
          "tasks @ [fst (begin_call w st location tm dt)]"] Start
      by (simp add: split_beta)
  next
    case (Resume i)
    show ?thesis
    proof (cases "i < length tasks")
      case True
      from resume_keeps [OF Cons.prems(1) settled_nth [OF Cons.prems(2) True], of w]
      have a: "poemCache (snd (resume w st (tasks ! i))) key = Some p"
        and b: "pending_key (fst (resume w st (tasks ! i))) \<noteq> Some key" by simp_all
      from Cons.IH [OF a settled_update [OF Cons.prems(2) b, of i]] Resume True
      show ?thesis by (simp add: split_beta)
    next
      case False
      with Cons.IH [OF Cons.prems] Resume show ?thesis by simp
    qed
  next
    case (Geocode lat lon)
    have "poemCache (snd (getLocationInfo w st lat lon)) key = Some p"
      using Cons.prems(1) by (simp add: getLocationInfo_calls)
    from Cons.IH [OF this Cons.prems(2)] Geocode show ?thesis by simp
  next
    case (GeocodeName lat lon)
    have "poemCache (snd (getLocationName w st lat lon)) key = Some p"
      using Cons.prems(1) by (simp add: getLocationName_poemCache)
    from Cons.IH [OF this Cons.prems(2)] GeocodeName show ?thesis by simp
  qed
qed

lemma resume_stores:
  "s \<noteq> [] \<Longrightarrow>
   resume w st (AwaitText (Parsed (JsObj [(''response'', JsStr s)])) location tm dt) =
     (Done (Inr (trim s)),
      st\<lparr>poemCache := (poemCache st)(location @ ''-'' @ tm @ ''-'' @ dt \<mapsto> trim s)\<rparr>)"
  by (simp add: Let_def truthy_opt_def)

text \<open>
  Claim C3, as the code has it. \<open>generatePoem\<close> is its pieces run one after the other
  with no other call in between. The probe comes before the cache lookup: when it
  succeeds and the key is cached, the cached text is returned and the only call made is
  the probe, no poem prompt is sent. An entry of the cache is never removed, and it
  is never changed while no call in flight is past its cache test for the same key
  (\<open>settled\<close>): whatever the server does in between (calls begun and resumed in any
  order, for any place, time and date, and look-ups of places), the entry is the same
  afterwards, no call is then past its cache test for the key, and a call for the key,
  in flight with others or alone, returns the cached text when its probe succeeds.
  So a later call with the same place, time and date as a first one that returned a
  poem with the probe succeeding returns the same text. A call that is past its cache
  test when the entry is written is not held back: when the text of its answer comes,
  it writes the cache whatever the cache holds.
\<close>

theorem cached_poem_served_after_probe:
  "run_alone w st location tm dt =
     (Done (fst (generatePoem w st location tm dt)), snd (generatePoem w st location tm dt)) \<and>
   (fst (isOllamaAvailable w st) \<and> poemCache st (location @ ''-'' @ tm @ ''-'' @ dt) = Some p \<longrightarrow>
      generatePoem w st location tm dt =
        (Inr p, st\<lparr>calls := calls st @ [Generate ''Hello'']\<rparr>)) \<and>
   (fst (isOllamaAvailable w st) \<and> generatePoem w st location tm dt = (Inr q, st1) \<and>
    fst (isOllamaAvailable w st1) \<longrightarrow>
      generatePoem w st1 location tm dt =
        (Inr q, st1\<lparr>calls := calls st1 @ [Generate ''Hello'']\<rparr>)) \<and>
   (poemCache st (location @ ''-'' @ tm @ ''-'' @ dt) = Some p \<and>
    settled (location @ ''-'' @ tm @ ''-'' @ dt) tasks \<and>
    interleave w st tasks es = (st_later, tasks_later) \<longrightarrow>
      poemCache st_later (location @ ''-'' @ tm @ ''-'' @ dt) = Some p \<and>
      settled (location @ ''-'' @ tm @ ''-'' @ dt) tasks_later \<and>
      (probe_passes r \<longrightarrow>
         resume w st_later (AwaitProbe r location tm dt) = (Done (Inr p), st_later)) \<and>
      (fst (isOllamaAvailable w st_later) \<longrightarrow>
         generatePoem w st_later location tm dt =
           (Inr p, st_later\<lparr>calls := calls st_later @ [Generate ''Hello'']\<rparr>))) \<and>
   (fst (isOllamaAvailable w st) \<and> generatePoem w st location tm dt = (Inr q, st1) \<and>
    settled (location @ ''-'' @ tm @ ''-'' @ dt) tasks \<and>
    interleave w st1 tasks es = (st2, tasks2) \<and> fst (isOllamaAvailable w st2) \<longrightarrow>
      generatePoem w st2 location tm dt =
        (Inr q, st2\<lparr>calls := calls st2 @ [Generate ''Hello'']\<rparr>)) \<and>
   (s \<noteq> [] \<longrightarrow>
      resume w st3 (AwaitText (Parsed (JsObj [(''response'', JsStr s)])) location tm dt) =
        (Done (Inr (trim s)),
         st3\<lparr>poemCache := (poemCache st3)(location @ ''-'' @ tm @ ''-'' @ dt \<mapsto> trim s)\<rparr>))"
proof (intro conjI impI)
  show "run_alone w st location tm dt =
     (Done (fst (generatePoem w st location tm dt)), snd (generatePoem w st location tm dt))"
    by (rule run_alone_generatePoem)
next
  assume "fst (isOllamaAvailable w st) \<and> poemCache st (location @ ''-'' @ tm @ ''-'' @ dt) = Some p"
  then show "generatePoem w st location tm dt =
        (Inr p, st\<lparr>calls := calls st @ [Generate ''Hello'']\<rparr>)"
    by (simp add: generatePoem_cached)
next
  assume a: "fst (isOllamaAvailable w st) \<and> generatePoem w st location tm dt = (Inr q, st1) \<and>
    fst (isOllamaAvailable w st1)"
  then have "poemCache st1 (location @ ''-'' @ tm @ ''-'' @ dt) = Some q"
    using generatePoem_caches [of w st location tm dt q st1] by simp
  with a show "generatePoem w st1 location tm dt =
        (Inr q, st1\<lparr>calls := calls st1 @ [Generate ''Hello'']\<rparr>)"
    by (simp add: generatePoem_cached)
next
  assume a: "poemCache st (location @ ''-'' @ tm @ ''-'' @ dt) = Some p \<and>
    settled (location @ ''-'' @ tm @ ''-'' @ dt) tasks \<and>
    interleave w st tasks es = (st_later, tasks_later)"
  with interleave_keeps [of st "location @ ''-'' @ tm @ ''-'' @ dt" p tasks w es]
  have c: "poemCache st_later (location @ ''-'' @ tm @ ''-'' @ dt) = Some p"
    and d: "settled (location @ ''-'' @ tm @ ''-'' @ dt) tasks_later"
    by simp_all
  show "poemCache st_later (location @ ''-'' @ tm @ ''-'' @ dt) = Some p" by (rule c)
  show "settled (location @ ''-'' @ tm @ ''-'' @ dt) tasks_later" by (rule d)
  {
    assume "probe_passes r"
    with c show "resume w st_later (AwaitProbe r location tm dt) = (Done (Inr p), st_later)"
      by simp
  }
  {
    assume "fst (isOllamaAvailable w st_later)"
    with c show "generatePoem w st_later location tm dt =
           (Inr p, st_later\<lparr>calls := calls st_later @ [Generate ''Hello'']\<rparr>)"
      by (simp add: generatePoem_cached)
  }
next
  assume a: "fst (isOllamaAvailable w st) \<and> generatePoem w st location tm dt = (Inr q, st1) \<and>
    settled (location @ ''-'' @ tm @ ''-'' @ dt) tasks \<and>
    interleave w st1 tasks es = (st2, tasks2) \<and> fst (isOllamaAvailable w st2)"
  then have "poemCache st1 (location @ ''-'' @ tm @ ''-'' @ dt) = Some q"
    using generatePoem_caches [of w st location tm dt q st1] by simp
  with a interleave_keeps [of st1 "location @ ''-'' @ tm @ ''-'' @ dt" q tasks w es]
  have "poemCache st2 (location @ ''-'' @ tm @ ''-'' @ dt) = Some q" by simp
  with a show "generatePoem w st2 location tm dt =
        (Inr q, st2\<lparr>calls := calls st2 @ [Generate ''Hello'']\<rparr>)"
    by (simp add: generatePoem_cached)
next
  assume "s \<noteq> []"
  then show "resume w st3 (AwaitText (Parsed (JsObj [(''response'', JsStr s)])) location tm dt) =
        (Done (Inr (trim s)),
         st3\<lparr>poemCache := (poemCache st3)(location @ ''-'' @ tm @ ''-'' @ dt \<mapsto> trim s)\<rparr>)"
    by (rule resume_stores)
qed

lemma up_world_available: "txt \<noteq> [] \<Longrightarrow> fst (isOllamaAvailable (up_world txt) st)"
  by (simp add: isOllamaAvailable_def fetch_generate_def up_world_def ok_def truthy_opt_def)

lemma up_world_first_call:
  "generatePoem (up_world ''  A poem '') empty_server ''Reno, Nevada'' ''09:57'' ''2025-03-01'' =
     (Inr ''A poem'', reno_served)"
proof -
  have av: "fst (isOllamaAvailable (up_world ''  A poem '') empty_server)"
    by (simp add: up_world_available)
  have miss: "poemCache empty_server (''Reno, Nevada'' @ ''-'' @ ''09:57'' @ ''-'' @ ''2025-03-01'') = None"
    by (simp add: empty_server_def)
  show ?thesis
    unfolding generatePoem_miss [OF av miss]
    by (simp add: up_world_def ok_def truthy_opt_def trim_examples empty_server_def
        reno_served_def)
qed

lemma reno_traffic_run:
  "interleave (up_world ''  A poem '') reno_served [] reno_traffic =
     (reno_later, [Done (Inr ''A poem''), Done (Inr ''A poem'')])"
  by (simp add: reno_traffic_def reno_later_def begin_call_def fetch_generate_def up_world_def
      reno_served_def getLocationInfo_calls Let_def probe_passes_def ok_def truthy_opt_def
      trim_examples)

text \<open>
  The theorem for Reno at 09:57 on 2025-03-01 with both services up: a first call, the
  work of \<open>reno_traffic\<close>, and a later call, which returns the text of the first; and
  what a call that was past its cache test does to the entry when its text comes.
\<close>

theorem cached_poem_served_after_probe_witness:
  "run_alone (up_world ''  A poem '') empty_server ''Reno, Nevada'' ''09:57'' ''2025-03-01'' =
     (Done (Inr ''A poem''), reno_served) \<and>
   fst (isOllamaAvailable (up_world ''  A poem '') empty_server) \<and>
   generatePoem (up_world ''  A poem '') empty_server ''Reno, Nevada'' ''09:57'' ''2025-03-01'' =
     (Inr ''A poem'', reno_served) \<and>
   fst (isOllamaAvailable (up_world ''  A poem '') reno_served) \<and>
   generatePoem (up_world ''  A poem '') reno_served ''Reno, Nevada'' ''09:57'' ''2025-03-01'' =
     (Inr ''A poem'', reno_served\<lparr>calls := calls reno_served @ [Generate ''Hello'']\<rparr>) \<and>
   settled ''Reno, Nevada-09:57-2025-03-01'' [] \<and>
   interleave (up_world ''  A poem '') reno_served [] reno_traffic =
     (reno_later, [Done (Inr ''A poem''), Done (Inr ''A poem'')]) \<and>
   poemCache reno_later ''Reno, Nevada-09:57-2025-03-01'' = Some ''A poem'' \<and>
   fst (isOllamaAvailable (up_world ''  A poem '') reno_later) \<and>
   generatePoem (up_world ''  A poem '') reno_later ''Reno, Nevada'' ''09:57'' ''2025-03-01'' =
     (Inr ''A poem'', reno_later\<lparr>calls := calls reno_later @ [Generate ''Hello'']\<rparr>) \<and>
   resume (up_world ''  A poem '') reno_later
     (AwaitText (Parsed (JsObj [(''response'', JsStr ''  A poem '')])) ''Reno, Nevada'' ''09:57''
        ''2025-03-01'') =
     (Done (Inr ''A poem''),
      reno_later\<lparr>poemCache := (poemCache reno_later)
                    (''Reno, Nevada-09:57-2025-03-01'' \<mapsto> ''A poem'')\<rparr>)"
  using cached_poem_served_after_probe [where w = "up_world ''  A poem ''" and st = empty_server
      and location = "''Reno, Nevada''" and tm = "''09:57''" and dt = "''2025-03-01''"
      and p = "''A poem''" and q = "''A poem''" and ?st1.0 = reno_served and tasks = "[]"
      and es = reno_traffic and ?st2.0 = reno_later
      and ?tasks2.0 = "[Done (Inr ''A poem''), Done (Inr ''A poem'')]"
      and s = "''  A poem ''" and ?st3.0 = reno_later]
    up_world_first_call up_world_available [of "''  A poem ''"] reno_traffic_run trim_examples
  by (simp add: settled_def reno_later_def)

text \<open>
  Two calls for the same key in flight at the same time, where the service gives the
  second another text than the first. When the first has ended the cache holds its
  text, and a call then made returns it; when the second has ended the cache holds the
  other text, and a call then made returns that one.
\<close>

lemma overlapping_calls_overwrite:
  "interleave varying_world empty_server [] overlap =
     (\<lparr>poemCache = [''Reno, Nevada-09:57-2025-03-01'' \<mapsto> ''First''],
       locationNameCache = Map.empty,
       calls = [Generate ''Hello'', Generate ''Hello'',
                Generate (make_prompt ''Reno, Nevada'' ''09:57'' ''2025-03-01''),
                Generate (make_prompt ''Reno, Nevada'' ''09:57'' ''2025-03-01'')]\<rparr>,
      [Done (Inr ''First''),
       AwaitPoem (Response 200 (Parsed (JsObj [(''response'', JsStr ''Second'')])))
         ''Reno, Nevada'' ''09:57'' ''2025-03-01''])"
  "fst (generatePoem varying_world (fst (interleave varying_world empty_server [] overlap))
     ''Reno, Nevada'' ''09:57'' ''2025-03-01'') = Inr ''First''"
  "snd (interleave varying_world empty_server [] (overlap @ [Resume 1, Resume 1])) =
     [Done (Inr ''First''), Done (Inr ''Second'')]"
  "fst (generatePoem varying_world
          (fst (interleave varying_world empty_server [] (overlap @ [Resume 1, Resume 1])))
     ''Reno, Nevada'' ''09:57'' ''2025-03-01'') = Inr ''Second''"
  by (simp_all add: overlap_def begin_call_def fetch_generate_def varying_world_def
      empty_server_def Let_def probe_passes_def ok_def truthy_opt_def make_prompt_def
      generatePoem_def isOllamaAvailable_probe
      trim_def trimStart_def trimEnd_def is_space_def is_space2_def is_space3_def)

text \<open>
  Claim C3 as stated fails: the second call does invoke the generation endpoint, for
  the probe. After the two calls the endpoint has been posted to three times.
\<close>

theorem second_call_probes_again:
  "generatePoem (up_world ''  A poem '') empty_server ''Reno, Nevada'' ''09:57'' ''2025-03-01'' =
     (Inr ''A poem'', reno_served) \<and>
   fst (generatePoem (up_world ''  A poem '') reno_served ''Reno, Nevada'' ''09:57'' ''2025-03-01'') =
     Inr ''A poem'' \<and>
   calls (snd (generatePoem (up_world ''  A poem '') reno_served ''Reno, Nevada'' ''09:57''
     ''2025-03-01'')) =
     [Generate ''Hello'', Generate (make_prompt ''Reno, Nevada'' ''09:57'' ''2025-03-01''),
      Generate ''Hello'']"
proof -
  have av: "fst (isOllamaAvailable (up_world ''  A poem '') reno_served)"
    by (simp add: up_world_available)
  have hit: "poemCache reno_served (''Reno, Nevada'' @ ''-'' @ ''09:57'' @ ''-'' @ ''2025-03-01'') =
      Some ''A poem''"
    by (simp add: reno_served_def)
  show ?thesis
    using up_world_first_call generatePoem_cached [OF av hit] by (simp add: reno_served_def)
qed


text \<open>
  Claim C2, as the code has it. A request that has passed validation is answered 200
  with a non-empty poem or 500 with the error \<open>Failed to generate poem\<close>, never
  otherwise. A failure of the geocoding call is absorbed: the place is
  \<open>unknown location\<close> and the request goes on. When the probe fails the reply is 200
  with \<open>unavailable_message\<close>. When the probe succeeds, the key is not cached and the
  generation call fails (the service is out of reach, answers with an error status, or
  its body is unreadable, not JSON, or without a truthy \<open>response\<close>), the error is
  thrown on to the route, whose reply is 500.
\<close>

theorem generation_failure_surfaces_as_500:
  "validatePoemRequest pf now b0 = Inr b \<longrightarrow>
   (let st1 = st\<lparr>calls := calls st @ [Reverse (latitude b) (longitude b)]\<rparr>;
        place = formatLocationInfo (fst (getLocationInfo w st (latitude b) (longitude b)));
        tm = interpolate (time b);
        dt = interpolate (date b);
        answer = generate w (length (calls st) + 2) (make_prompt place tm dt);
        reply = fst (post_poem pf now w st b0)
    in (fst (getLocationInfo_try w st (latitude b) (longitude b)) = Inl e \<longrightarrow>
          place = ''unknown location'') \<and>
       ((\<exists>poem. poem \<noteq> [] \<and> reply = Reply 200 (Poem poem)) \<or>
        (\<exists>err. reply = Reply 500 (Failure ''Failed to generate poem'' err))) \<and>
       (\<not> fst (isOllamaAvailable w st1) \<longrightarrow> reply = Reply 200 (Poem unavailable_message)) \<and>
       (fst (isOllamaAvailable w st1) \<and> poemCache st (place @ ''-'' @ tm @ ''-'' @ dt) = None \<longrightarrow>
          (answer = Rejected \<longrightarrow>
             reply = Reply 500 (Failure ''Failed to generate poem'' (Some FetchFailed))) \<and>
          (answer = Response status body \<and> \<not> ok status \<longrightarrow>
             reply = Reply 500 (Failure ''Failed to generate poem'' (Some (HttpStatus status)))) \<and>
          (answer = Response status Unreadable \<and> ok status \<longrightarrow>
             reply = Reply 500 (Failure ''Failed to generate poem'' (Some BodyUnreadable))) \<and>
          (answer = Response status Malformed \<and> ok status \<longrightarrow>
             reply = Reply 500 (Failure ''Failed to generate poem'' (Some ParseFailed))) \<and>
          (answer = Response status (Parsed data) \<and> ok status \<and>
             (\<not> truthy_json data \<or> \<not> truthy_opt (response_of data)) \<longrightarrow>
             reply = Reply 500 (Failure ''Failed to generate poem'' (Some UnexpectedFormat)))))"
proof
  assume valid: "validatePoemRequest pf now b0 = Inr b"
  define st1 where "st1 = st\<lparr>calls := calls st @ [Reverse (latitude b) (longitude b)]\<rparr>"
  define place where "place = formatLocationInfo (fst (getLocationInfo w st (latitude b) (longitude b)))"
  define tm where "tm = interpolate (time b)"
  define dt where "dt = interpolate (date b)"
  define answer where "answer = generate w (length (calls st) + 2) (make_prompt place tm dt)"
  define reply where "reply = fst (post_poem pf now w st b0)"
  have reply: "reply = poem_reply (fst (generatePoem w st1 place tm dt))"
    by (simp add: reply_def post_poem_def valid poem_route_unfold Let_def st1_def place_def tm_def
        dt_def)
  have answer: "answer = generate w (Suc (length (calls st1))) (make_prompt place tm dt)"
    by (simp add: answer_def st1_def)
  have cache: "poemCache st1 = poemCache st"
    by (simp add: st1_def)
  have 1: "place = ''unknown location''" if "fst (getLocationInfo_try w st (latitude b) (longitude b)) = Inl e"
    using getLocationInfo_failure [OF that] by (simp add: place_def formatLocationInfo_def)
  have 2: "(\<exists>poem. poem \<noteq> [] \<and> reply = Reply 200 (Poem poem)) \<or>
        (\<exists>err. reply = Reply 500 (Failure ''Failed to generate poem'' err))"
    unfolding reply by (rule poem_reply_cases)
  have 3: "reply = Reply 200 (Poem unavailable_message)" if "\<not> fst (isOllamaAvailable w st1)"
    unfolding reply generatePoem_unavailable [OF that]
    by (simp add: poem_reply_def unavailable_message_def)
  have 4: "(answer = Rejected \<longrightarrow>
             reply = Reply 500 (Failure ''Failed to generate poem'' (Some FetchFailed))) \<and>
          (answer = Response status body \<and> \<not> ok status \<longrightarrow>
             reply = Reply 500 (Failure ''Failed to generate poem'' (Some (HttpStatus status)))) \<and>
          (answer = Response status Unreadable \<and> ok status \<longrightarrow>
             reply = Reply 500 (Failure ''Failed to generate poem'' (Some BodyUnreadable))) \<and>
          (answer = Response status Malformed \<and> ok status \<longrightarrow>
             reply = Reply 500 (Failure ''Failed to generate poem'' (Some ParseFailed))) \<and>
          (answer = Response status (Parsed data) \<and> ok status \<and>
             (\<not> truthy_json data \<or> \<not> truthy_opt (response_of data)) \<longrightarrow>
             reply = Reply 500 (Failure ''Failed to generate poem'' (Some UnexpectedFormat)))"
    if av: "fst (isOllamaAvailable w st1)" and miss: "poemCache st (place @ ''-'' @ tm @ ''-'' @ dt) = None"
  proof -
    from miss cache have miss1: "poemCache st1 (place @ ''-'' @ tm @ ''-'' @ dt) = None"
      by simp
    from generatePoem_failure [OF av miss1, of status body data] show ?thesis
      unfolding reply answer by (simp add: poem_reply_def)
  qed
  from 1 2 3 4 show "let st1 = st\<lparr>calls := calls st @ [Reverse (latitude b) (longitude b)]\<rparr>;
        place = formatLocationInfo (fst (getLocationInfo w st (latitude b) (longitude b)));
        tm = interpolate (time b);
        dt = interpolate (date b);
        answer = generate w (length (calls st) + 2) (make_prompt place tm dt);
        reply = fst (post_poem pf now w st b0)
    in (fst (getLocationInfo_try w st (latitude b) (longitude b)) = Inl e \<longrightarrow>
          place = ''unknown location'') \<and>
       ((\<exists>poem. poem \<noteq> [] \<and> reply = Reply 200 (Poem poem)) \<or>
        (\<exists>err. reply = Reply 500 (Failure ''Failed to generate poem'' err))) \<and>
       (\<not> fst (isOllamaAvailable w st1) \<longrightarrow> reply = Reply 200 (Poem unavailable_message)) \<and>
       (fst (isOllamaAvailable w st1) \<and> poemCache st (place @ ''-'' @ tm @ ''-'' @ dt) = None \<longrightarrow>
          (answer = Rejected \<longrightarrow>
             reply = Reply 500 (Failure ''Failed to generate poem'' (Some FetchFailed))) \<and>
          (answer = Response status body \<and> \<not> ok status \<longrightarrow>
             reply = Reply 500 (Failure ''Failed to generate poem'' (Some (HttpStatus status)))) \<and>
          (answer = Response status Unreadable \<and> ok status \<longrightarrow>
             reply = Reply 500 (Failure ''Failed to generate poem'' (Some BodyUnreadable))) \<and>
          (answer = Response status Malformed \<and> ok status \<longrightarrow>
             reply = Reply 500 (Failure ''Failed to generate poem'' (Some ParseFailed))) \<and>
          (answer = Response status (Parsed data) \<and> ok status \<and>
             (\<not> truthy_json data \<or> \<not> truthy_opt (response_of data)) \<longrightarrow>
             reply = Reply 500 (Failure ''Failed to generate poem'' (Some UnexpectedFormat))))"
    unfolding Let_def st1_def [symmetric] place_def [symmetric] tm_def [symmetric] dt_def [symmetric]
      answer_def [symmetric] reply_def [symmetric]
    by simp
qed


lemma reno_place:
  "reverse w (length (calls st)) lat lon = Response 200 (Parsed (GAddr reno)) \<Longrightarrow>
   formatLocationInfo (fst (getLocationInfo w st lat lon)) = ''Reno, Nevada''"
  by (simp add: getLocationInfo_def getLocationInfo_try_def fetch_reverse_def ok_def
      formatLocationInfo_def reno_def present_def)

lemma down_world_place:
  "fst (getLocationInfo_try down_world st lat lon) = Inl FetchFailed"
  by (simp add: getLocationInfo_try_def fetch_reverse_def down_world_def)

lemma failing_world_available: "fst (isOllamaAvailable failing_world st)"
  by (simp add: isOllamaAvailable_def fetch_generate_def failing_world_def ok_def truthy_opt_def)

lemma failing_world_answer:
  "generate failing_world n (make_prompt ''Reno, Nevada'' ''09:57'' ''2025-03-01'') = Response 500 Malformed"
  by (simp add: failing_world_def make_prompt_def)

text \<open>
  The theorem for the request of the spec's example, in a world where the generation
  service answers the probe and then status 500, and in a world with nothing in reach.
\<close>

theorem generation_failure_surfaces_as_500_witness:
  "fst (isOllamaAvailable failing_world
     (empty_server\<lparr>calls := [Reverse (latitude reno_request) (longitude reno_request)]\<rparr>)) \<and>
   poemCache empty_server (''Reno, Nevada'' @ ''-'' @ ''09:57'' @ ''-'' @ ''2025-03-01'') = None \<and>
   generate failing_world 2 (make_prompt ''Reno, Nevada'' ''09:57'' ''2025-03-01'') =
     Response 500 Malformed \<and>
   \<not> ok 500 \<and>
   validatePoemRequest read_digits reno_clock reno_request = Inr reno_request \<and>
   fst (post_poem read_digits reno_clock failing_world empty_server reno_request) =
     Reply 500 (Failure ''Failed to generate poem'' (Some (HttpStatus 500))) \<and>
   fst (getLocationInfo_try down_world empty_server (latitude reno_request) (longitude reno_request)) =
     Inl FetchFailed \<and>
   formatLocationInfo (fst (getLocationInfo down_world empty_server (latitude reno_request)
     (longitude reno_request))) = ''unknown location'' \<and>
   \<not> fst (isOllamaAvailable down_world
     (empty_server\<lparr>calls := [Reverse (latitude reno_request) (longitude reno_request)]\<rparr>)) \<and>
   fst (post_poem read_digits reno_clock down_world empty_server reno_request) =
     Reply 200 (Poem unavailable_message)"
proof -
  have place: "formatLocationInfo (fst (getLocationInfo failing_world empty_server
      (latitude reno_request) (longitude reno_request))) = ''Reno, Nevada''"
    by (rule reno_place) (simp add: failing_world_def)
  have td: "interpolate (time reno_request) = ''09:57''" "interpolate (date reno_request) = ''2025-03-01''"
    by (simp_all add: reno_request_def)
  have c: "calls empty_server = []" "poemCache empty_server = Map.empty"
    by (simp_all add: empty_server_def)
  have nok: "\<not> ok 500"
    by (simp add: ok_def)
  from generation_failure_surfaces_as_500 [of read_digits reno_clock reno_request reno_request
      empty_server failing_world FetchFailed 500 Malformed JsNull]
  have a: "fst (post_poem read_digits reno_clock failing_world empty_server reno_request) =
     Reply 500 (Failure ''Failed to generate poem'' (Some (HttpStatus 500)))"
    by (simp add: Let_def reno_request_valid place td c failing_world_available failing_world_answer
        nok)
  from generation_failure_surfaces_as_500 [of read_digits reno_clock reno_request reno_request
      empty_server down_world FetchFailed 500 Malformed JsNull]
  have b: "formatLocationInfo (fst (getLocationInfo down_world empty_server (latitude reno_request)
       (longitude reno_request))) = ''unknown location''"
    "fst (post_poem read_digits reno_clock down_world empty_server reno_request) =
       Reply 200 (Poem unavailable_message)"
    by (simp_all add: Let_def reno_request_valid down_world_place down_world_unavailable)
  from a b nok show ?thesis
    by (simp add: failing_world_available failing_world_answer down_world_place
        down_world_unavailable c reno_request_valid)
qed

text \<open>
  Claim C2 as stated fails: the request of the spec's example passes validation, the
  probe succeeds, the generation call is answered with status 500, and the reply is 500.
\<close>

theorem generation_failure_is_500:
  "validatePoemRequest read_digits reno_clock reno_request = Inr reno_request \<and>
   fst (post_poem read_digits reno_clock failing_world empty_server reno_request) =
     Reply 500 (Failure ''Failed to generate poem'' (Some (HttpStatus 500))) \<and>
   calls (snd (post_poem read_digits reno_clock failing_world empty_server reno_request)) =
     [Reverse (latitude reno_request) (longitude reno_request), Generate ''Hello'',
      Generate (make_prompt ''Reno, Nevada'' ''09:57'' ''2025-03-01'')]"
proof -
  let ?st1 = "empty_server\<lparr>calls := calls empty_server @
      [Reverse (latitude reno_request) (longitude reno_request)]\<rparr>"
  have place: "formatLocationInfo (fst (getLocationInfo failing_world empty_server
      (latitude reno_request) (longitude reno_request))) = ''Reno, Nevada''"
    by (rule reno_place) (simp add: failing_world_def)
  have td: "interpolate (time reno_request) = ''09:57''" "interpolate (date reno_request) = ''2025-03-01''"
    by (simp_all add: reno_request_def)
  have av: "fst (isOllamaAvailable failing_world ?st1)"
    by (rule failing_world_available)
  have miss: "poemCache ?st1 (''Reno, Nevada'' @ ''-'' @ ''09:57'' @ ''-'' @ ''2025-03-01'') = None"
    by (simp add: empty_server_def)
  have "generatePoem failing_world ?st1 ''Reno, Nevada'' ''09:57'' ''2025-03-01'' =
      (Inl (HttpStatus 500),
       ?st1\<lparr>calls := calls ?st1 @ [Generate ''Hello'',
          Generate (make_prompt ''Reno, Nevada'' ''09:57'' ''2025-03-01'')]\<rparr>)"
    unfolding generatePoem_miss [OF av miss]
    by (simp add: Let_def failing_world_answer ok_def)
  moreover have "calls empty_server = []"
    by (simp add: empty_server_def)
  ultimately show ?thesis
    by (simp add: post_poem_def reno_request_valid poem_route_unfold Let_def place td
        poem_reply_def)
qed

lemma generatePoem_fresh_is_trimmed:
  assumes av: "fst (isOllamaAvailable w st)"
    and miss: "poemCache st (location @ ''-'' @ tm @ ''-'' @ dt) = None"
    and r: "fst (generatePoem w st location tm dt) = Inr p"
  shows "\<exists>s. s \<noteq> [] \<and> p = trim s"
proof -
  from r obtain s where "truthy_json (JsStr s)" "p = trim s"
    unfolding generatePoem_miss [OF av miss]
    by (auto simp: Let_def truthy_opt_def split: fetch_result.splits http_body.splits if_splits
        option.splits json.splits)
  then show ?thesis
    by auto
qed

lemma blank_world_available: "fst (isOllamaAvailable blank_world st)"
  by (simp add: isOllamaAvailable_def fetch_generate_def blank_world_def ok_def truthy_opt_def)

lemma make_prompt_not_Hello: "make_prompt location tm dt \<noteq> ''Hello''"
  by (simp add: make_prompt_def)

text \<open>
  Claim C8. The claim has the client never return an empty poem. The code tests
  \<open>data.response\<close> for truthiness before it trims it: a text of white space only is
  truthy, and the poem returned, and cached, is the empty string. (The failures of the
  call are told apart, and a poem freshly generated is trimmed, as
  \<open>generatePoem_failure\<close> and \<open>generatePoem_fresh_is_trimmed\<close> show.)
\<close>

theorem blank_response_gives_empty_poem:
  "poemCache st (location @ ''-'' @ tm @ ''-'' @ dt) = None \<longrightarrow>
     fst (isOllamaAvailable blank_world st) \<and>
     fst (generatePoem blank_world st location tm dt) = Inr [] \<and>
     poemCache (snd (generatePoem blank_world st location tm dt)) (location @ ''-'' @ tm @ ''-'' @ dt) =
       Some []"
proof
  assume miss: "poemCache st (location @ ''-'' @ tm @ ''-'' @ dt) = None"
  have av: "fst (isOllamaAvailable blank_world st)"
    by (rule blank_world_available)
  have "generate blank_world n (make_prompt location tm dt) =
      Response 200 (Parsed (JsObj [(''response'', JsStr [CHR '' '', CHR 0x0A, CHR '' ''])]))" for n
    using make_prompt_not_Hello [of location tm dt] by (simp add: blank_world_def)
  then show "fst (isOllamaAvailable blank_world st) \<and>
     fst (generatePoem blank_world st location tm dt) = Inr [] \<and>
     poemCache (snd (generatePoem blank_world st location tm dt)) (location @ ''-'' @ tm @ ''-'' @ dt) =
       Some []"
    unfolding generatePoem_miss [OF av miss]
    by (simp add: av Let_def ok_def truthy_opt_def trim_examples)
qed

text \<open>
  The theorem for Reno at 09:57 on 2025-03-01 on a server that has cached nothing.
\<close>

theorem blank_response_gives_empty_poem_witness:
  "poemCache empty_server (''Reno, Nevada'' @ ''-'' @ ''09:57'' @ ''-'' @ ''2025-03-01'') = None \<and>
   fst (isOllamaAvailable blank_world empty_server) \<and>
   fst (generatePoem blank_world empty_server ''Reno, Nevada'' ''09:57'' ''2025-03-01'') = Inr [] \<and>
   poemCache (snd (generatePoem blank_world empty_server ''Reno, Nevada'' ''09:57'' ''2025-03-01''))
     (''Reno, Nevada'' @ ''-'' @ ''09:57'' @ ''-'' @ ''2025-03-01'') = Some []"
  using blank_response_gives_empty_poem [of empty_server "''Reno, Nevada''" "''09:57''" "''2025-03-01''"]
  by (simp add: empty_server_def)

section \<open>Place names\<close>

lemma locationName_of_spec:
  "locationName_of a = (case spec_place_name a of None \<Rightarrow> [] | Some n \<Rightarrow> n)"
  by (simp add: locationName_of_def spec_place_name_def present_def split: option.splits)

lemma present_nonempty: "present v \<Longrightarrow> the v \<noteq> []"
  by (cases v) (simp_all add: present_def)

lemma formatLocationInfo_agrees:
  assumes "present (city a) \<or> present (town a) \<or> present (village a)"
    and "\<not> (present (state a) \<and> present (country a))"
    and "present (county a) \<longrightarrow> present (state a)"
  shows "formatLocationInfo (GAddr a) = locationName_of a"
  using assms by (auto simp: formatLocationInfo_def locationName_of_def Let_def present_nonempty)

lemma formatLocationInfo_appends_both:
  assumes "present (city a) \<or> present (town a) \<or> present (village a)"
    and "present (state a)" and "present (country a)"
  shows "formatLocationInfo (GAddr a) =
           first_present [city a, town a, village a] @ '', '' @ the (state a) @ '', '' @ the (country a)"
  using assms by (auto simp: formatLocationInfo_def)

lemma prompt_contains:
  "sublist (location @ '' at '' @ tm @ '' on '' @ dt) (make_prompt location tm dt)"
  unfolding make_prompt_def sublist_def
  by (rule exI [of _ "''Write a poem about ''"],
      rule exI [of _ "''. The poem should be evocative and reflect the mood of the time and place.''"])
    simp

lemma present_None: "\<not> present None"
  by (simp add: present_def)

lemma formatLocationInfo_joined: "formatLocationInfo (GAddr a) = joined_place_name a"
  by (simp add: formatLocationInfo_def joined_place_name_def first_of_def Let_def present_None)

lemma formatLocationInfo_country_only:
  assumes "\<not> present (city a) \<and> \<not> present (town a) \<and> \<not> present (village a) \<and>
    \<not> present (state a) \<and> \<not> present (county a) \<and> present (country a)"
  shows "formatLocationInfo (GAddr a) = the (country a)"
  using assms by (simp add: formatLocationInfo_def)

text \<open>
  Claim C6, as the code has it. The name that \<open>getLocationName\<close> builds follows the
  claim's rule: the first present of city, town, village and county, then the state or,
  if the state is absent, the country. The name that the routes use, from
  \<open>formatLocationInfo\<close>, is for every address the first present of city, town and
  village, the first present of state and county, and the country, as far as present,
  joined by a comma and a space, and \<open>unknown location\<close> when none is present: the
  country alone when only the country is present. It is the name of the claim's rule
  when a city, town or village is present, state and country are not both present, and
  a county comes only with a state; with a state and a country it has both. For the
  address with city Reno and state Nevada it is \<open>Reno, Nevada\<close>, and the prompt for a
  time and a date contains the place, the time and the date joined by \<open>at\<close> and
  \<open>on\<close>.
\<close>

theorem place_name_rule:
  "locationName_of a = (case spec_place_name a of None \<Rightarrow> [] | Some n \<Rightarrow> n) \<and>
   ((present (city a) \<or> present (town a) \<or> present (village a)) \<and>
    \<not> (present (state a) \<and> present (country a)) \<and> (present (county a) \<longrightarrow> present (state a)) \<longrightarrow>
      formatLocationInfo (GAddr a) = locationName_of a) \<and>
   ((present (city a) \<or> present (town a) \<or> present (village a)) \<and>
    present (state a) \<and> present (country a) \<longrightarrow>
      formatLocationInfo (GAddr a) =
        first_present [city a, town a, village a] @ '', '' @ the (state a) @ '', '' @ the (country a)) \<and>
   formatLocationInfo (GAddr reno) = ''Reno, Nevada'' \<and>
   sublist (formatLocationInfo (GAddr reno) @ '' at '' @ tm @ '' on '' @ dt)
     (make_prompt (formatLocationInfo (GAddr reno)) tm dt) \<and>
   formatLocationInfo (GAddr a) = joined_place_name a \<and>
   (\<not> present (city a) \<and> \<not> present (town a) \<and> \<not> present (village a) \<and>
    \<not> present (state a) \<and> \<not> present (county a) \<and> present (country a) \<longrightarrow>
      formatLocationInfo (GAddr a) = the (country a))"
proof (intro conjI impI)
  show "locationName_of a = (case spec_place_name a of None \<Rightarrow> [] | Some n \<Rightarrow> n)"
    by (rule locationName_of_spec)
  show "formatLocationInfo (GAddr a) = joined_place_name a"
    by (rule formatLocationInfo_joined)
  show "formatLocationInfo (GAddr reno) = ''Reno, Nevada''"
    by (simp add: formatLocationInfo_def reno_def present_def)
  show "sublist (formatLocationInfo (GAddr reno) @ '' at '' @ tm @ '' on '' @ dt)
     (make_prompt (formatLocationInfo (GAddr reno)) tm dt)"
    by (rule prompt_contains)
qed (simp_all add: formatLocationInfo_agrees formatLocationInfo_appends_both
    formatLocationInfo_country_only)


text \<open>
  The theorem at the address of Reno, and at the same address with a country, at 09:57
  on 2025-03-01.
\<close>

theorem place_name_rule_witness:
  "(present (city reno) \<or> present (town reno) \<or> present (village reno)) \<and>
   present (state reno) \<and> \<not> present (country reno) \<and> \<not> present (county reno) \<and>
   spec_place_name reno = Some ''Reno, Nevada'' \<and>
   locationName_of reno = ''Reno, Nevada'' \<and>
   formatLocationInfo (GAddr reno) = ''Reno, Nevada'' \<and>
   sublist ''Reno, Nevada at 09:57 on 2025-03-01''
     (make_prompt (formatLocationInfo (GAddr reno)) ''09:57'' ''2025-03-01'') \<and>
   present (country (reno\<lparr>country := Some ''United States''\<rparr>)) \<and>
   formatLocationInfo (GAddr (reno\<lparr>country := Some ''United States''\<rparr>)) =
     ''Reno, Nevada, United States'' \<and>
   present (country (reno\<lparr>city := None, state := None, country := Some ''France''\<rparr>)) \<and>
   formatLocationInfo (GAddr (reno\<lparr>city := None, state := None, country := Some ''France''\<rparr>)) =
     ''France''"
proof -
  have p: "present (city reno)" "present (state reno)" "\<not> present (country reno)"
    "\<not> present (county reno)" "present (country (reno\<lparr>country := Some ''United States''\<rparr>))"
    by (simp_all add: reno_def present_def)
  have s: "spec_place_name reno = Some ''Reno, Nevada''"
    by (simp add: spec_place_name_def reno_def present_def)
  note r = place_name_rule [of reno "''09:57''" "''2025-03-01''"]
  from r s have l: "locationName_of reno = ''Reno, Nevada''"
    by (elim conjE) simp
  from r have f: "formatLocationInfo (GAddr reno) = ''Reno, Nevada''"
    by (elim conjE)
  from r have "sublist (formatLocationInfo (GAddr reno) @ '' at '' @ ''09:57'' @ '' on '' @ ''2025-03-01'')
       (make_prompt (formatLocationInfo (GAddr reno)) ''09:57'' ''2025-03-01'')"
    by (elim conjE)
  then have c: "sublist ''Reno, Nevada at 09:57 on 2025-03-01''
       (make_prompt (formatLocationInfo (GAddr reno)) ''09:57'' ''2025-03-01'')"
    by (simp add: f)
  note a = l f c
  from place_name_rule [of "reno\<lparr>country := Some ''United States''\<rparr>" "''09:57''" "''2025-03-01''"]
  have b: "formatLocationInfo (GAddr (reno\<lparr>country := Some ''United States''\<rparr>)) =
     ''Reno, Nevada, United States''"
    by (simp add: reno_def present_def)
  have q: "present (country (reno\<lparr>city := None, state := None, country := Some ''France''\<rparr>))"
    by (simp add: present_def)
  from place_name_rule [of "reno\<lparr>city := None, state := None, country := Some ''France''\<rparr>"
      "''09:57''" "''2025-03-01''", THEN conjunct2, THEN conjunct2, THEN conjunct2, THEN conjunct2,
      THEN conjunct2, THEN conjunct2]
  have c: "formatLocationInfo (GAddr (reno\<lparr>city := None, state := None,
      country := Some ''France''\<rparr>)) = ''France''"
    by (simp add: reno_def present_def)
  from p s a b q c show ?thesis by simp
qed

text \<open>
  Claim C6 as stated fails for the name the routes use: with city, state and country
  present the rule gives \<open>Reno, Nevada\<close>, the code \<open>Reno, Nevada, United States\<close>.
\<close>

theorem state_and_country_both_appended:
  "spec_place_name (reno\<lparr>country := Some ''United States''\<rparr>) = Some ''Reno, Nevada'' \<and>
   formatLocationInfo (GAddr (reno\<lparr>country := Some ''United States''\<rparr>)) =
     ''Reno, Nevada, United States''"
  by (simp add: spec_place_name_def formatLocationInfo_def reno_def present_def)












section \<open>The rate limit\<close>

lemma rateLimit_in_window:
  assumes "windowMs opts = Fin (of_nat W)" and "max_hits opts = Fin (of_nat M)"
    and "table client = Some \<lparr>hits = k, windowStart = t0\<rparr>"
    and "t0 \<le> t" and "t < t0 + W"
  shows "rateLimit opts table client t =
           (if k < M then None else Some (Reply 429 (Text (message opts))),
            table(client \<mapsto> \<lparr>hits = Suc k, windowStart = t0\<rparr>))"
proof -
  have "num_le (Fin (of_nat W)) (of_nat (t - t0)) = (W \<le> t - t0)"
    by simp
  moreover have "num_lt (Fin (of_nat M)) (of_nat (Suc k)) = (M < Suc k)"
    unfolding num_lt.simps of_nat_less_iff ..
  ultimately show ?thesis
    using assms
    by (auto simp add: rateLimit_def Let_def simp del: num_le.simps num_lt.simps of_nat_Suc)
qed

lemma rateLimit_fresh:
  assumes "max_hits opts = Fin (of_nat M)" and "table client = None"
  shows "rateLimit opts table client t =
           (if 0 < M then None else Some (Reply 429 (Text (message opts))),
            table(client \<mapsto> \<lparr>hits = Suc 0, windowStart = t\<rparr>))"
proof -
  have "num_lt (Fin (of_nat M)) (of_nat (Suc 0)) = (M < Suc 0)"
    unfolding num_lt.simps of_nat_less_iff ..
  then show ?thesis
    using assms by (auto simp add: rateLimit_def Let_def simp del: num_lt.simps of_nat_Suc)
qed

lemma serve_in_window:
  assumes "windowMs opts = Fin (of_nat W)" and "max_hits opts = Fin (of_nat M)"
    and "table client = Some \<lparr>hits = k, windowStart = t0\<rparr>"
    and "\<forall>(t, r) \<in> set rs. limited r \<and> t0 \<le> t \<and> t < t0 + W"
  shows "serve opts table client rs =
           map (\<lambda>i. if k + i < M then None else Some (Reply 429 (Text (message opts))))
             [0..<length rs]"
  using assms(3,4)
proof (induction rs arbitrary: table k)
  case Nil
  show ?case by simp
next
  case (Cons x rs)
  obtain t r where x: "x = (t, r)"
    by (cases x)
  with Cons.prems have t: "limited r" "t0 \<le> t" "t < t0 + W"
    and rest: "\<forall>(t, r) \<in> set rs. limited r \<and> t0 \<le> t \<and> t < t0 + W"
    by auto
  let ?table = "table(client \<mapsto> \<lparr>hits = Suc k, windowStart = t0\<rparr>)"
  have step: "rateLimit opts table client t =
      (if k < M then None else Some (Reply 429 (Text (message opts))), ?table)"
    using assms(1,2) Cons.prems(1) t(2,3) by (rule rateLimit_in_window)
  have "?table client = Some \<lparr>hits = Suc k, windowStart = t0\<rparr>"
    by simp
  from Cons.IH [of ?table "Suc k", OF this rest]
  have "serve opts ?table client rs =
      map (\<lambda>i. if Suc k + i < M then None else Some (Reply 429 (Text (message opts))))
        [0..<length rs]" .
  with step t(1) show ?case
    by (simp add: x map_upt_Suc del: upt_Suc)
qed

lemma serve_fresh_window:
  assumes w: "windowMs opts = Fin (of_nat W)" and m: "max_hits opts = Fin (of_nat M)"
    and fresh: "table client = None"
    and first: "limited r0"
    and rest: "\<forall>(t, r) \<in> set rs. limited r \<and> t0 \<le> t \<and> t < t0 + W"
  shows "serve opts table client ((t0, r0) # rs) =
           map (\<lambda>i. if i < M then None else Some (Reply 429 (Text (message opts))))
             [0..<Suc (length rs)]"
proof -
  let ?table = "table(client \<mapsto> \<lparr>hits = Suc 0, windowStart = t0\<rparr>)"
  have "?table client = Some \<lparr>hits = Suc 0, windowStart = t0\<rparr>"
    by simp
  from serve_in_window [of opts W M ?table client "Suc 0" t0 rs, OF w m this rest]
  have "serve opts ?table client rs =
      map (\<lambda>i. if Suc 0 + i < M then None else Some (Reply 429 (Text (message opts))))
        [0..<length rs]" .
  with rateLimit_fresh [of opts M table client t0, OF m fresh] first show ?thesis
    by (simp add: map_upt_Suc del: upt_Suc)
qed

lemma limiter_unset:
  "limiter pint unset =
     \<lparr>windowMs = Fin 60000, max_hits = Fin 100,
      message = ''Too many requests, please try again later.''\<rparr>"
  by (simp add: limiter_def unset_def parseInt_def or_number_def)


text \<open>
  Claim C9, as the code has it. With the two variables unset the window is 60000 ms and
  the maximum is 100, not 60. Of the requests of one client to the routes under
  \<^verbatim>\<open>/api/\<close> within a window, counted together, the first 100 pass and every later
  one is answered 429 with the message. The maximum is 60, and the 61st request is the
  first to be answered 429, when \<^verbatim>\<open>RATE_LIMIT_MAX_REQUESTS\<close> is set to a string that
  the host reads as 60.
\<close>

theorem default_limit_is_100:
  "limiter pint unset =
     \<lparr>windowMs = Fin 60000, max_hits = Fin 100,
      message = ''Too many requests, please try again later.''\<rparr> \<and>
   (table client = None \<and> limited r0 \<and> (\<forall>(t, r) \<in> set rs. limited r \<and> t0 \<le> t \<and> t < t0 + 60000) \<longrightarrow>
      serve (limiter pint unset) table client ((t0, r0) # rs) =
        map (\<lambda>i. if i < 100 then None
                  else Some (Reply 429 (Text ''Too many requests, please try again later.'')))
          [0..<Suc (length rs)]) \<and>
   (pint s = Fin 60 \<and> table client = None \<and> limited r0 \<and>
    (\<forall>(t, r) \<in> set rs. limited r \<and> t0 \<le> t \<and> t < t0 + 60000) \<longrightarrow>
      serve (limiter pint (unset\<lparr>RATE_LIMIT_MAX_REQUESTS := Some s\<rparr>)) table client ((t0, r0) # rs) =
        map (\<lambda>i. if i < 60 then None
                  else Some (Reply 429 (Text ''Too many requests, please try again later.'')))
          [0..<Suc (length rs)])"
proof (intro conjI impI)
  show "limiter pint unset =
     \<lparr>windowMs = Fin 60000, max_hits = Fin 100,
      message = ''Too many requests, please try again later.''\<rparr>"
    by (rule limiter_unset)
next
  assume a: "table client = None \<and> limited r0 \<and>
    (\<forall>(t, r) \<in> set rs. limited r \<and> t0 \<le> t \<and> t < t0 + 60000)"
  have "windowMs (limiter pint unset) = Fin (of_nat 60000)" "max_hits (limiter pint unset) = Fin (of_nat 100)"
    "message (limiter pint unset) = ''Too many requests, please try again later.''"
    by (simp_all add: limiter_unset)
  with a serve_fresh_window [of "limiter pint unset" 60000 100 table client r0 rs t0]
  show "serve (limiter pint unset) table client ((t0, r0) # rs) =
        map (\<lambda>i. if i < 100 then None
                  else Some (Reply 429 (Text ''Too many requests, please try again later.'')))
          [0..<Suc (length rs)]"
    by simp
next
  assume a: "pint s = Fin 60 \<and> table client = None \<and> limited r0 \<and>
    (\<forall>(t, r) \<in> set rs. limited r \<and> t0 \<le> t \<and> t < t0 + 60000)"
  let ?opts = "limiter pint (unset\<lparr>RATE_LIMIT_MAX_REQUESTS := Some s\<rparr>)"
  from a have "windowMs ?opts = Fin (of_nat 60000)" "max_hits ?opts = Fin (of_nat 60)"
    "message ?opts = ''Too many requests, please try again later.''"
    by (simp_all add: limiter_def unset_def parseInt_def or_number_def)
  with a serve_fresh_window [of ?opts 60000 60 table client r0 rs t0]
  show "serve ?opts table client ((t0, r0) # rs) =
        map (\<lambda>i. if i < 60 then None
                  else Some (Reply 429 (Text ''Too many requests, please try again later.'')))
          [0..<Suc (length rs)]"
    by simp
qed

lemma burst_Suc: "burst (Suc n) = (0, ApiPoem) # map (\<lambda>i. (100 * Suc i, if even i then ApiLocation else ApiPoem)) [0..<n]"
  by (simp add: burst_def map_upt_Suc del: upt_Suc)

lemma burst_in_window:
  "n \<le> 599 \<Longrightarrow>
   \<forall>(t, r) \<in> set (map (\<lambda>i. (100 * Suc i, if even i then ApiLocation else ApiPoem)) [0..<n]).
     limited r \<and> 0 \<le> t \<and> t < 0 + 60000"
  by auto

text \<open>
  The theorem for 101 requests of one client within ten seconds.
\<close>

theorem default_limit_is_100_witness:
  "Map.empty ''client'' = (None :: rateWindow option) \<and> limited ApiPoem \<and>
   serve (limiter read_digits unset) Map.empty ''client'' (burst 101) ! 60 = None \<and>
   serve (limiter read_digits unset) Map.empty ''client'' (burst 101) ! 99 = None \<and>
   serve (limiter read_digits unset) Map.empty ''client'' (burst 101) ! 100 =
     Some (Reply 429 (Text ''Too many requests, please try again later.'')) \<and>
   read_digits ''60'' = Fin 60 \<and>
   serve (limiter read_digits (unset\<lparr>RATE_LIMIT_MAX_REQUESTS := Some ''60''\<rparr>)) Map.empty ''client''
     (burst 101) ! 59 = None \<and>
   serve (limiter read_digits (unset\<lparr>RATE_LIMIT_MAX_REQUESTS := Some ''60''\<rparr>)) Map.empty ''client''
     (burst 101) ! 60 = Some (Reply 429 (Text ''Too many requests, please try again later.''))"
proof -
  have rd: "read_digits ''60'' = Fin 60"
    by (simp add: read_digits_def is_digit_def decimal_def digit_value_def)
  have b: "burst 101 = (0, ApiPoem) #
      map (\<lambda>i. (100 * Suc i, if even i then ApiLocation else ApiPoem)) [0..<100]"
    using burst_Suc [of 100] by simp
  note r = default_limit_is_100 [of read_digits Map.empty "''client''" ApiPoem
      "map (\<lambda>i. (100 * Suc i, if even i then ApiLocation else ApiPoem)) [0..<100]" 0 "''60''"]
  from r [THEN conjunct2] burst_in_window [of 100]
  have 1: "serve (limiter read_digits unset) Map.empty ''client'' (burst 101) =
        map (\<lambda>i. if i < 100 then None
                  else Some (Reply 429 (Text ''Too many requests, please try again later.'')))
          [0..<101]"
    by (simp add: b del: upt_Suc serve.simps)
  from r [THEN conjunct2] burst_in_window [of 100] rd
  have 2: "serve (limiter read_digits (unset\<lparr>RATE_LIMIT_MAX_REQUESTS := Some ''60''\<rparr>)) Map.empty
      ''client'' (burst 101) =
        map (\<lambda>i. if i < 60 then None
                  else Some (Reply 429 (Text ''Too many requests, please try again later.'')))
          [0..<101]"
    by (simp add: b del: upt_Suc serve.simps)
  show ?thesis
    unfolding 1 2 using rd by (simp del: upt_Suc)
qed

text \<open>
  Claim C9 as stated fails: with the variables unset the maximum is 100, and the 61st
  of 61 requests of one client within six seconds passes.
\<close>

theorem sixty_first_request_passes:
  "max_hits (limiter read_digits unset) = Fin 100 \<and>
   length (burst 61) = 61 \<and>
   serve (limiter read_digits unset) Map.empty ''client'' (burst 61) ! 60 = None"
proof -
  have "windowMs (limiter read_digits unset) = Fin (of_nat 60000)"
    "max_hits (limiter read_digits unset) = Fin (of_nat 100)"
    by (simp_all add: limiter_unset)
  moreover have b: "burst 61 = (0, ApiPoem) #
      map (\<lambda>i. (100 * Suc i, if even i then ApiLocation else ApiPoem)) [0..<60]"
    using burst_Suc [of 60] by simp
  ultimately have "serve (limiter read_digits unset) Map.empty ''client'' (burst 61) =
        map (\<lambda>i. if i < 100 then None
                  else Some (Reply 429 (Text (message (limiter read_digits unset)))))
          [0..<61]"
    using serve_fresh_window [of "limiter read_digits unset" 60000 100 Map.empty "''client''" ApiPoem
      "map (\<lambda>i. (100 * Suc i, if even i then ApiLocation else ApiPoem)) [0..<60]" 0]
    burst_in_window [of 60]
    by (simp del: upt_Suc serve.simps)
  then show ?thesis
    by (simp add: limiter_unset burst_def del: upt_Suc)
qed

end
